theory Spec2Isabelle
  imports Complex_Main "HOL-Library.Multiset"
begin

section \<open>JavaScript strings\<close>

text \<open>
  A JavaScript string is a sequence of UTF-16 code units; a code unit is modelled as a
  natural number. \<open>ustr\<close> embeds an ASCII literal. \<open>String.prototype.trim\<close> removes the
  ECMAScript white space and line terminator code units from both ends.
\<close>

type_synonym jsstring = "nat list"

definition ustr :: "string \<Rightarrow> jsstring" where
  "ustr s = map of_char s"

definition is_js_space :: "nat \<Rightarrow> bool" where
  "is_js_space c \<longleftrightarrow>
     c = 9 \<or> c = 10 \<or> c = 11 \<or> c = 12 \<or> c = 13 \<or> c = 32 \<or> c = 160 \<or> c = 5760 \<or>
     (8192 \<le> c \<and> c \<le> 8202) \<or> c = 8232 \<or> c = 8233 \<or> c = 8239 \<or> c = 8287 \<or>
     c = 12288 \<or> c = 65279"

definition trim :: "jsstring \<Rightarrow> jsstring" where
  "trim s = rev (dropWhile is_js_space (rev (dropWhile is_js_space s)))"

text \<open>Decimal rendering of a non-negative integer, as a template literal prints it.\<close>

fun show_nat :: "nat \<Rightarrow> jsstring" where
  "show_nat n = (if n < 10 then [48 + n] else show_nat (n div 10) @ [48 + n mod 10])"

declare show_nat.simps [simp del]


section \<open>Duration formatting\<close>

text \<open>
  \<open>_formatTotalDuration\<close> of \<^verbatim>\<open>map_app.ts\<close>: the three successive reassignments of
  \<open>totalSeconds\<close> and of \<open>result\<close> are numbered.
\<close>

definition formatTotalDuration :: "nat \<Rightarrow> jsstring" where
  "formatTotalDuration totalSeconds =
     (let days = totalSeconds div (3600 * 24);
          totalSeconds1 = totalSeconds mod (3600 * 24);
          hours = totalSeconds1 div 3600;
          totalSeconds2 = totalSeconds1 mod 3600;
          minutes = totalSeconds2 div 60;
          result0 = [];
          result1 = (if days > 0
                     then result0 @ show_nat days @ ustr '' day'' @
                          (if days > 1 then ustr ''s'' else []) @ ustr '' ''
                     else result0);
          result2 = (if hours > 0
                     then result1 @ show_nat hours @ ustr '' hour'' @
                          (if hours > 1 then ustr ''s'' else []) @ ustr '' ''
                     else result1);
          result3 = (if minutes > 0
                     then result2 @ show_nat minutes @ ustr '' min'' @
                          (if minutes > 1 then ustr ''s'' else [])
                     else result2)
      in trim result3)"

text \<open>
  The decomposition as the specification words it: the non-zero components, each with its
  unit, joined by single spaces.
\<close>

definition duration_part :: "nat \<Rightarrow> string \<Rightarrow> jsstring list" where
  "duration_part n unit =
     (if n = 0 then []
      else [show_nat n @ ustr '' '' @ ustr unit @ (if n > 1 then ustr ''s'' else [])])"

fun join_spaces :: "jsstring list \<Rightarrow> jsstring" where
  "join_spaces [] = []"
| "join_spaces [p] = p"
| "join_spaces (p # q # ps) = p @ ustr '' '' @ join_spaces (q # ps)"

definition duration_spec :: "nat \<Rightarrow> jsstring" where
  "duration_spec s =
     join_spaces (duration_part (s div 86400) ''day'' @
                  duration_part ((s mod 86400) div 3600) ''hour'' @
                  duration_part ((s mod 3600) div 60) ''min'')"

lemma show_nat_digits: "c \<in> set (show_nat n) \<Longrightarrow> 48 \<le> c \<and> c \<le> 57"
proof (induction n arbitrary: c rule: show_nat.induct)
  case (1 n)
  show ?case
  proof (cases "n < 10")
    case True
    with "1.prems" show ?thesis by (simp add: show_nat.simps [of n])
  next
    case False
    with "1.prems" have "c \<in> set (show_nat (n div 10)) \<or> c = 48 + n mod 10"
      by (auto simp: show_nat.simps [of n])
    then show ?thesis
    proof
      assume "c \<in> set (show_nat (n div 10))"
      with "1.IH" False show ?thesis by blast
    next
      assume "c = 48 + n mod 10"
      moreover have "n mod 10 < 10" by simp
      ultimately show ?thesis by linarith
    qed
  qed
qed

lemma show_nat_nonempty: "show_nat n \<noteq> []"
  by (simp add: show_nat.simps [of n])

lemma digit_not_space: "48 \<le> c \<Longrightarrow> c \<le> 57 \<Longrightarrow> \<not> is_js_space c"
  by (auto simp: is_js_space_def)



definition solid :: "jsstring \<Rightarrow> bool" where
  "solid p \<longleftrightarrow> p \<noteq> [] \<and> \<not> is_js_space (hd p) \<and> \<not> is_js_space (last p)"

lemma trim_solid:
  assumes "solid s"
  shows "trim s = s"
proof -
  from assms have a: "dropWhile is_js_space s = s"
    by (cases s) (auto simp: solid_def)
  from assms have "rev s \<noteq> []" "\<not> is_js_space (hd (rev s))"
    by (simp_all add: hd_rev solid_def)
  then have "dropWhile is_js_space (rev s) = rev s"
    by (cases "rev s") auto
  with a show ?thesis by (simp add: trim_def)
qed

lemma trim_solid_space:
  assumes "solid s"
  shows "trim (s @ [32]) = s"
proof -
  from assms have a: "dropWhile is_js_space (s @ [32]) = s @ [32]"
    by (cases s) (auto simp: solid_def)
  have sp: "is_js_space 32" by (simp add: is_js_space_def)
  from assms have "rev s \<noteq> []" "\<not> is_js_space (hd (rev s))"
    by (simp_all add: hd_rev solid_def)
  then have "dropWhile is_js_space (rev s) = rev s"
    by (cases "rev s") auto
  with a sp show ?thesis by (simp add: trim_def)
qed

lemma solid_join: "solid a \<Longrightarrow> solid b \<Longrightarrow> solid (a @ 32 # b)"
  by (simp add: solid_def)

lemma solid_show_nat_tail:
  assumes "t \<noteq> []" "\<not> is_js_space (last t)"
  shows "solid (show_nat n @ t)"
proof -
  have "hd (show_nat n) \<in> set (show_nat n)"
    using show_nat_nonempty by simp
  then have "\<not> is_js_space (hd (show_nat n))"
    using show_nat_digits digit_not_space by blast
  with assms show ?thesis
    by (simp add: solid_def show_nat_nonempty)
qed

lemma mod_86400_3600: "(s :: nat) mod (3600 * 24) mod 3600 = s mod 3600"
  by (simp add: mod_mod_cancel)

lemma trim_Nil: "trim [] = []"
  by (simp add: trim_def)

text \<open>
  Claim C5: for every non-negative whole number of seconds \<open>s\<close>, \<open>_formatTotalDuration\<close>
  renders \<open>floor(s/86400)\<close> days, \<open>floor((s mod 86400)/3600)\<close> hours and
  \<open>floor((s mod 3600)/60)\<close> minutes, emitting only the non-zero components in that order,
  separated by single spaces, each unit in the plural exactly when its count exceeds 1, and
  it returns the empty string when \<open>s < 60\<close>.
\<close>

theorem formatTotalDuration_spec:
  "formatTotalDuration s = duration_spec s \<and> (s < 60 \<longrightarrow> formatTotalDuration s = [])"
proof -
  define d where "d = s div 86400"
  define h where "h = s mod 86400 div 3600"
  define m where "m = s mod 3600 div 60"
  define Pd where "Pd = show_nat d @ ustr '' day'' @ (if d > 1 then ustr ''s'' else [])"
  define Ph where "Ph = show_nat h @ ustr '' hour'' @ (if h > 1 then ustr ''s'' else [])"
  define Pm where "Pm = show_nat m @ ustr '' min'' @ (if m > 1 then ustr ''s'' else [])"
  have code: "formatTotalDuration s =
      trim ((if d > 0 then Pd @ [32] else []) @ (if h > 0 then Ph @ [32] else []) @
            (if m > 0 then Pm else []))"
    unfolding formatTotalDuration_def Let_def mod_86400_3600
    by (simp add: d_def h_def m_def Pd_def Ph_def Pm_def ustr_def)
  have spec: "duration_spec s =
      join_spaces ((if d = 0 then [] else [Pd]) @ (if h = 0 then [] else [Ph]) @
                   (if m = 0 then [] else [Pm]))"
    unfolding duration_spec_def duration_part_def
    by (simp add: d_def h_def m_def Pd_def Ph_def Pm_def ustr_def)
  have nsp: "\<not> is_js_space 121" "\<not> is_js_space 115" "\<not> is_js_space 114" "\<not> is_js_space 110"
    by (simp_all add: is_js_space_def)
  have sd: "solid Pd" unfolding Pd_def
    by (rule solid_show_nat_tail) (simp_all add: ustr_def nsp)
  have sh: "solid Ph" unfolding Ph_def
    by (rule solid_show_nat_tail) (simp_all add: ustr_def nsp)
  have sm: "solid Pm" unfolding Pm_def
    by (rule solid_show_nat_tail) (simp_all add: ustr_def nsp)
  have sdh: "solid (Pd @ 32 # Ph)" and sdm: "solid (Pd @ 32 # Pm)" and shm: "solid (Ph @ 32 # Pm)"
    and sdhm: "solid (Pd @ 32 # Ph @ 32 # Pm)"
    using sd sh sm by (simp_all add: solid_join)
  have a: "formatTotalDuration s = duration_spec s"
  proof (cases "d = 0")
    case d0: True
    show ?thesis
    proof (cases "h = 0")
      case h0: True
      show ?thesis
        using d0 h0 sm by (cases "m = 0") (simp_all add: code spec trim_Nil trim_solid)
    next
      case h1: False
      show ?thesis
        using d0 h1 sh shm trim_solid_space [of Ph] trim_solid [of "Ph @ 32 # Pm"]
        by (cases "m = 0") (simp_all add: code spec ustr_def)
    qed
  next
    case d1: False
    show ?thesis
    proof (cases "h = 0")
      case h0: True
      show ?thesis
        using d1 h0 sd sdm trim_solid_space [of Pd] trim_solid [of "Pd @ 32 # Pm"]
        by (cases "m = 0") (simp_all add: code spec ustr_def)
    next
      case h1: False
      show ?thesis
        using d1 h1 sdh sdhm trim_solid_space [of "Pd @ 32 # Ph"]
          trim_solid [of "Pd @ 32 # Ph @ 32 # Pm"]
        by (cases "m = 0") (simp_all add: code spec ustr_def)
    qed
  qed
  have "duration_spec s = []" if "s < 60"
    using that by (simp add: duration_spec_def duration_part_def)
  with a show ?thesis by simp
qed

theorem formatTotalDuration_spec_witness:
  "formatTotalDuration 183900 = ustr ''2 days 3 hours 5 mins'' \<and>
   duration_spec 183900 = ustr ''2 days 3 hours 5 mins'' \<and>
   formatTotalDuration 90060 = ustr ''1 day 1 hour 1 min'' \<and>
   (59 :: nat) < 60 \<and> formatTotalDuration 59 = []"
  using formatTotalDuration_spec [of 183900] formatTotalDuration_spec [of 59]
    formatTotalDuration_spec [of 90060]
  by (simp add: duration_spec_def duration_part_def ustr_def show_nat.simps)


section \<open>Data model\<close>

text \<open>
  Finite JavaScript numbers are modelled as exact rationals: the rounding of IEEE doubles is
  not represented. The type \<open>number\<close> adds the non-finite values that a division by a
  user-entered zero produces. Map objects of the external SDK (markers, polylines, bounds)
  appear only through the data the component reads from them.
\<close>

record LatLng =
  lat :: rat
  lng :: rat

record LatLngAltitude = LatLng +
  altitude :: rat

datatype view_kind = StopView | LegView | CustomView

record MapView =
  view_id :: rat
  view_name :: jsstring
  view_center :: LatLngAltitude
  view_heading :: rat
  view_tilt :: rat
  view_range :: rat
  view_type :: view_kind
  view_itineraryIndex :: rat

datatype number = Fin rat | PosInf | NegInf | NaN

datatype travel_mode = DRIVING | WALKING | BICYCLING | TRANSIT

record LatLngBounds =
  bounds_center :: LatLng
  bounds_diagonal :: rat

record ItineraryStop =
  stop_name :: jsstring
  stop_hotelName :: "jsstring option"
  stop_address :: jsstring
  stop_accommodationCost :: "number option"
  stop_location :: LatLng
  stop_color :: jsstring
  stop_date :: "jsstring option"

record ItineraryLeg =
  leg_distanceText :: jsstring
  leg_distanceValue :: number
  leg_durationText :: jsstring
  leg_fuelCost :: number
  leg_path :: "LatLng list"
  leg_bounds :: LatLngBounds
  leg_color :: jsstring

record ItineraryData =
  it_stops :: "ItineraryStop list"
  it_legs :: "ItineraryLeg list"
  it_totalDistance :: number
  it_totalTime :: jsstring
  it_totalFuelCost :: number
  it_totalAccommodationCost :: number
  it_travelMode :: travel_mode

text \<open>
  Elements the component puts on the map: a marker with its position (and altitude, when the
  component gives one), its label and the CSS colour its style is built from; a polyline with
  its coordinates and stroke.
\<close>

record Marker3D =
  marker_position :: LatLng
  marker_altitude :: "rat option"
  marker_label :: jsstring
  marker_color :: "jsstring option"

record Polyline3D =
  coordinates :: "LatLngAltitude list"
  strokeColor :: jsstring
  strokeWidth :: rat

text \<open>
  The reactive state of the \<open>MapApp\<close> component (\<^verbatim>\<open>map_app.ts\<close>). The \<open>has_\<close> fields say
  whether the corresponding SDK handle is set; \<open>marker\<close>, \<open>routePolylines\<close>, \<open>stopMarkers\<close> and
  \<open>backgroundRoutePolyline\<close> hold the elements currently on the map; \<open>messages\<close> holds the
  role and text of each chat turn. Fields of the chat input and of the sidebar layout are
  not touched by the functions modelled here and are left out.
\<close>

datatype sidebar_tab = ItineraryTab | TourTab

record MapApp =
  mapInitialized :: bool
  mapError :: jsstring
  messages :: "(jsstring \<times> jsstring) list"
  has_map :: bool
  has_geocoder :: bool
  has_directionsService :: bool
  has_Marker3DElement :: bool
  has_Polyline3DElement :: bool
  marker :: "Marker3D option"
  routePolylines :: "Polyline3D list"
  stopMarkers :: "Marker3D list"
  backgroundRoutePolyline :: "Polyline3D option"
  currentAnimationId :: nat
  itineraryData :: "ItineraryData option"
  mpg :: number
  animationSpeed :: int
  activeRightSidebarTab :: sidebar_tab
  savedViews :: "MapView list"
  playbackDelay :: rat
  playbackFlyoverTime :: rat
  loopTour :: bool
  isPlayingTour :: bool
  isSavingView :: bool
  nextViewId :: rat
  draggedItemId :: "rat option"
  editingViewId :: "rat option"
  addStopsToTourToggle :: bool
  addLegsToTourToggle :: bool


section \<open>Map tour\<close>

record CameraState =
  cam_center :: LatLngAltitude
  cam_heading :: rat
  cam_tilt :: rat
  cam_range :: rat

text \<open>What the geocoder answers: its results, or a failure with its status.\<close>

record GeocoderResult =
  formatted_address :: jsstring
  geometry_location :: LatLng

datatype geocode_reply = GeocodeResolved "GeocoderResult list" | GeocodeRejected jsstring

text \<open>
  A request to the directions service: what is sent (origin, destination, waypoints, travel
  mode) and what the callback closes over (the animation id captured for the run, the stop
  names and the optional arrays of the query).
\<close>

record DirectionsRequest =
  req_origin :: "jsstring option"
  req_destination :: "jsstring option"
  req_waypoints :: "jsstring list"
  req_travelMode :: travel_mode
  req_animationId :: nat
  req_stopNames :: "jsstring list"
  req_accommodationCosts :: "number list option"
  req_dates :: "jsstring list option"
  req_hotelNames :: "jsstring list option"

text \<open>
  What a handler asks of the outside world: an alert, a request to the geocoder or to the
  directions service, a camera flight with its duration, and (for the animation) the polyline
  an animation loop started under a given animation id has just put on the map.
\<close>

datatype effect =
    Alert jsstring
  | GeocodeRequest jsstring
  | RouteRequest DirectionsRequest
  | FlyCameraTo CameraState rat
  | LoopDraw nat Polyline3D

text \<open>
  \<open>Array.prototype.findIndex\<close> (\<open>None\<close> for -1), and the two uses of \<open>splice\<close> in
  \<open>handleDrop\<close>: \<open>splice(i, 1)\<close> and \<open>splice(i, 0, x)\<close>.
\<close>

fun findIndex :: "('a \<Rightarrow> bool) \<Rightarrow> 'a list \<Rightarrow> nat option" where
  "findIndex P [] = None"
| "findIndex P (x # xs) = (if P x then Some 0 else map_option Suc (findIndex P xs))"

definition splice_remove :: "nat \<Rightarrow> 'a list \<Rightarrow> 'a list" where
  "splice_remove i xs = take i xs @ drop (Suc i) xs"

definition splice_insert :: "nat \<Rightarrow> 'a \<Rightarrow> 'a list \<Rightarrow> 'a list" where
  "splice_insert i x xs = take i xs @ x # drop i xs"

definition handleDrop :: "MapView \<Rightarrow> MapApp \<Rightarrow> MapApp" where
  "handleDrop dropTargetView st =
     (case draggedItemId st of
        None \<Rightarrow> st
      | Some dragged \<Rightarrow>
          if dragged = view_id dropTargetView then st
          else
            (case findIndex (\<lambda>v. view_id v = dragged) (savedViews st) of
               None \<Rightarrow> st
             | Some draggedIndex \<Rightarrow>
                 (case findIndex (\<lambda>v. view_id v = view_id dropTargetView) (savedViews st) of
                    None \<Rightarrow> st
                  | Some targetIndex \<Rightarrow>
                      let draggedItem = savedViews st ! draggedIndex;
                          reorderedViews = splice_remove draggedIndex (savedViews st)
                      in st\<lparr>savedViews := splice_insert targetIndex draggedItem reorderedViews\<rparr>)))"















text \<open>The field initialisers of the class.\<close>

definition initial_state :: MapApp where
  "initial_state =
     \<lparr>mapInitialized = False, mapError = [], messages = [],
      has_map = False, has_geocoder = False, has_directionsService = False,
      has_Marker3DElement = False, has_Polyline3DElement = False,
      marker = None, routePolylines = [], stopMarkers = [], backgroundRoutePolyline = None,
      currentAnimationId = 0, itineraryData = None, mpg = Fin 20, animationSpeed = 75,
      activeRightSidebarTab = ItineraryTab,
      savedViews = [], playbackDelay = 3, playbackFlyoverTime = 2, loopTour = False,
      isPlayingTour = False, isSavingView = False, nextViewId = 0,
      draggedItemId = None, editingViewId = None,
      addStopsToTourToggle = False, addLegsToTourToggle = False\<rparr>"

lemma findIndex_Some:
  "findIndex P xs = Some i \<Longrightarrow> i < length xs \<and> P (xs ! i)"
proof (induction xs arbitrary: i)
  case Nil
  then show ?case by simp
next
  case (Cons x xs)
  then show ?case by (cases "P x") (auto simp: nth_Cons')
qed

lemma findIndex_None: "findIndex P xs = None \<longleftrightarrow> (\<forall>x \<in> set xs. \<not> P x)"
  by (induction xs) auto

lemma findIndex_present: "\<exists>x \<in> set xs. P x \<Longrightarrow> \<exists>i. findIndex P xs = Some i"
  using findIndex_None [of P xs] by (cases "findIndex P xs") auto

lemma mset_splice_remove:
  "i < length xs \<Longrightarrow> add_mset (xs ! i) (mset (splice_remove i xs)) = mset xs"
proof -
  assume "i < length xs"
  then have "xs = take i xs @ xs ! i # drop (Suc i) xs"
    by (rule id_take_nth_drop)
  then have "mset xs = mset (take i xs @ xs ! i # drop (Suc i) xs)"
    by simp
  then show ?thesis by (simp add: splice_remove_def)
qed

lemma mset_splice_insert: "mset (splice_insert i x ys) = add_mset x (mset ys)"
proof -
  have "mset (take i ys) + mset (drop i ys) = mset ys"
    by (metis append_take_drop_id mset_append)
  then show ?thesis by (simp add: splice_insert_def)
qed

lemma length_splice_remove: "i < length xs \<Longrightarrow> length (splice_remove i xs) = length xs - 1"
  by (simp add: splice_remove_def)

lemma length_splice_insert: "length (splice_insert i x ys) = Suc (length ys)"
proof -
  have "length (take i ys @ drop i ys) = length ys" by (simp only: append_take_drop_id)
  then show ?thesis by (simp add: splice_insert_def)
qed

lemma nth_splice_insert: "i \<le> length ys \<Longrightarrow> splice_insert i x ys ! i = x"
  by (simp add: splice_insert_def nth_append)

lemma splice_remove_insert: "i \<le> length ys \<Longrightarrow> splice_remove i (splice_insert i x ys) = ys"
  by (simp add: splice_insert_def splice_remove_def)

lemma handleDrop_found:
  assumes "draggedItemId st = Some d" "d \<noteq> view_id t"
    and "findIndex (\<lambda>v. view_id v = d) (savedViews st) = Some di"
    and "findIndex (\<lambda>v. view_id v = view_id t) (savedViews st) = Some ti"
  shows "handleDrop t st =
    st\<lparr>savedViews := splice_insert ti (savedViews st ! di) (splice_remove di (savedViews st))\<rparr>"
  using assms by (simp add: handleDrop_def Let_def)

lemma handleDrop_mset: "mset (savedViews (handleDrop t st)) = mset (savedViews st)"
proof -
  have "mset (splice_insert ti (savedViews st ! di) (splice_remove di (savedViews st)))
        = mset (savedViews st)"
    if "findIndex (\<lambda>v. view_id v = d) (savedViews st) = Some di" for d di ti
    using that findIndex_Some [OF that] by (simp add: mset_splice_insert mset_splice_remove)
  then show ?thesis
    by (simp add: handleDrop_def Let_def split: option.splits)
qed

text \<open>
  Claim C7: when \<open>handleDrop\<close> fires with a dragged view id and a drop target whose ids are
  distinct and both present in \<open>savedViews\<close>, the new list is a permutation of the old one: the
  dragged view is removed from its old position and re-inserted at the target's former
  index, and nothing else changes; if the ids are equal, the dragged id is null, or either id
  is absent, the state is left unchanged.
\<close>

theorem handleDrop_reorders:
  "(draggedItemId st = Some d \<and> d \<noteq> view_id t \<and>
    d \<in> view_id ` set (savedViews st) \<and> view_id t \<in> view_id ` set (savedViews st) \<longrightarrow>
      (\<exists>di ti. findIndex (\<lambda>v. view_id v = d) (savedViews st) = Some di \<and>
               findIndex (\<lambda>v. view_id v = view_id t) (savedViews st) = Some ti \<and>
               di < length (savedViews st) \<and> ti < length (savedViews st) \<and>
               view_id (savedViews st ! di) = d \<and>
               view_id (savedViews st ! ti) = view_id t \<and>
               handleDrop t st = st\<lparr>savedViews := savedViews (handleDrop t st)\<rparr> \<and>
               length (savedViews (handleDrop t st)) = length (savedViews st) \<and>
               savedViews (handleDrop t st) ! ti = savedViews st ! di \<and>
               splice_remove ti (savedViews (handleDrop t st)) = splice_remove di (savedViews st) \<and>
               mset (savedViews (handleDrop t st)) = mset (savedViews st))) \<and>
   (draggedItemId st = None \<or> draggedItemId st = Some (view_id t) \<or>
    (\<exists>d'. draggedItemId st = Some d' \<and> d' \<notin> view_id ` set (savedViews st)) \<or>
    view_id t \<notin> view_id ` set (savedViews st) \<longrightarrow> handleDrop t st = st)"
proof (intro conjI impI)
  assume a: "draggedItemId st = Some d \<and> d \<noteq> view_id t \<and>
    d \<in> view_id ` set (savedViews st) \<and> view_id t \<in> view_id ` set (savedViews st)"
  let ?xs = "savedViews st"
  from a have "\<exists>x \<in> set ?xs. view_id x = d" by auto
  then obtain di where di: "findIndex (\<lambda>v. view_id v = d) ?xs = Some di"
    using findIndex_present [of ?xs "\<lambda>v. view_id v = d"] by blast
  from a have "\<exists>x \<in> set ?xs. view_id x = view_id t" by auto
  then obtain ti where ti: "findIndex (\<lambda>v. view_id v = view_id t) ?xs = Some ti"
    using findIndex_present [of ?xs "\<lambda>v. view_id v = view_id t"] by blast
  note dis = findIndex_Some [OF di] and tis = findIndex_Some [OF ti]
  let ?ys = "splice_remove di ?xs"
  have eq: "handleDrop t st = st\<lparr>savedViews := splice_insert ti (?xs ! di) ?ys\<rparr>"
    using a di ti by (simp add: handleDrop_found)
  have len: "length ?ys = length ?xs - 1"
    using dis by (simp add: length_splice_remove)
  with tis have le: "ti \<le> length ?ys" by linarith
  have sv: "savedViews (handleDrop t st) = splice_insert ti (?xs ! di) ?ys"
    by (simp add: eq)
  have dl: "0 < length ?xs" using dis by auto
  have "length (splice_insert ti (?xs ! di) ?ys) = length ?xs"
    using len dl by (simp add: length_splice_insert)
  then show "\<exists>di ti. findIndex (\<lambda>v. view_id v = d) ?xs = Some di \<and>
               findIndex (\<lambda>v. view_id v = view_id t) ?xs = Some ti \<and>
               di < length ?xs \<and> ti < length ?xs \<and>
               view_id (?xs ! di) = d \<and>
               view_id (?xs ! ti) = view_id t \<and>
               handleDrop t st = st\<lparr>savedViews := savedViews (handleDrop t st)\<rparr> \<and>
               length (savedViews (handleDrop t st)) = length ?xs \<and>
               savedViews (handleDrop t st) ! ti = ?xs ! di \<and>
               splice_remove ti (savedViews (handleDrop t st)) = splice_remove di ?xs \<and>
               mset (savedViews (handleDrop t st)) = mset ?xs"
    using di ti dis tis le eq sv handleDrop_mset [of t st]
    by (intro exI [of _ di] exI [of _ ti])
      (simp add: nth_splice_insert splice_remove_insert)
next
  assume "draggedItemId st = None \<or> draggedItemId st = Some (view_id t) \<or>
    (\<exists>d'. draggedItemId st = Some d' \<and> d' \<notin> view_id ` set (savedViews st)) \<or>
    view_id t \<notin> view_id ` set (savedViews st)"
  then show "handleDrop t st = st"
  proof (elim disjE exE conjE)
    assume "draggedItemId st = None"
    then show ?thesis by (simp add: handleDrop_def)
  next
    assume "draggedItemId st = Some (view_id t)"
    then show ?thesis by (simp add: handleDrop_def)
  next
    fix d'
    assume g: "draggedItemId st = Some d'" "d' \<notin> view_id ` set (savedViews st)"
    then have "findIndex (\<lambda>v. view_id v = d') (savedViews st) = None"
      by (auto simp: findIndex_None)
    with g show ?thesis by (simp add: handleDrop_def)
  next
    assume "view_id t \<notin> view_id ` set (savedViews st)"
    then have "findIndex (\<lambda>v. view_id v = view_id t) (savedViews st) = None"
      by (auto simp: findIndex_None image_iff)
    then show ?thesis by (simp add: handleDrop_def split: option.splits)
  qed
qed


definition example_view :: "rat \<Rightarrow> MapView" where
  "example_view i =
     \<lparr>view_id = i, view_name = ustr ''Boise'',
      view_center = \<lparr>lat = 43, lng = - 116, altitude = 0\<rparr>,
      view_heading = 0, view_tilt = 45, view_range = 2000,
      view_type = CustomView, view_itineraryIndex = - 1\<rparr>"

definition example_tour :: MapApp where
  "example_tour = initial_state\<lparr>savedViews := map example_view [0, 1, 2], nextViewId := 3\<rparr>"

theorem handleDrop_reorders_witness:
  "draggedItemId (example_tour\<lparr>draggedItemId := Some 0\<rparr>) = Some 0 \<and>
   (0 :: rat) \<noteq> view_id (example_view 2) \<and>
   0 \<in> view_id ` set (savedViews (example_tour\<lparr>draggedItemId := Some 0\<rparr>)) \<and>
   view_id (example_view 2) \<in> view_id ` set (savedViews (example_tour\<lparr>draggedItemId := Some 0\<rparr>)) \<and>
   savedViews (handleDrop (example_view 2) (example_tour\<lparr>draggedItemId := Some 0\<rparr>)) =
     map example_view [1, 2, 0] \<and>
   handleDrop (example_view 0) (example_tour\<lparr>draggedItemId := Some 0\<rparr>) =
     example_tour\<lparr>draggedItemId := Some 0\<rparr> \<and>
   handleDrop (example_view 7) (example_tour\<lparr>draggedItemId := Some 0\<rparr>) =
     example_tour\<lparr>draggedItemId := Some 0\<rparr>"
  using handleDrop_reorders [of "example_tour\<lparr>draggedItemId := Some 0\<rparr>" 0 "example_view 2"]
    handleDrop_reorders [of "example_tour\<lparr>draggedItemId := Some 0\<rparr>" 0 "example_view 0"]
    handleDrop_reorders [of "example_tour\<lparr>draggedItemId := Some 0\<rparr>" 0 "example_view 7"]
  by (simp add: example_tour_def example_view_def initial_state_def handleDrop_def
      splice_insert_def splice_remove_def)



subsection \<open>The view ids\<close>



























definition example_stop :: "string \<Rightarrow> rat \<Rightarrow> rat \<Rightarrow> ItineraryStop" where
  "example_stop nm la lo =
     \<lparr>stop_name = ustr nm, stop_hotelName = None, stop_address = ustr nm,
      stop_accommodationCost = None, stop_location = \<lparr>lat = la, lng = lo\<rparr>,
      stop_color = ustr ''rgb(0, 255, 0)'', stop_date = None\<rparr>"

definition example_leg :: "rat \<Rightarrow> string \<Rightarrow> ItineraryLeg" where
  "example_leg meters colour =
     \<lparr>leg_distanceText = ustr ''far'', leg_distanceValue = Fin meters,
      leg_durationText = ustr ''long'', leg_fuelCost = Fin 0,
      leg_path = [\<lparr>lat = 43, lng = - 116\<rparr>, \<lparr>lat = 39, lng = - 119\<rparr>],
      leg_bounds = \<lparr>bounds_center = \<lparr>lat = 41, lng = - 117\<rparr>, bounds_diagonal = 500000\<rparr>,
      leg_color = ustr colour\<rparr>"

definition example_itinerary :: ItineraryData where
  "example_itinerary =
     \<lparr>it_stops = [example_stop ''Boise'' 43 (- 116), example_stop ''Reno'' 39 (- 119),
                  example_stop ''Home'' 37 (- 122)],
      it_legs = [example_leg 680000 ''rgb(0, 0, 255)'', example_leg 350000 ''rgb(255, 0, 0)''],
      it_totalDistance = Fin 1030000, it_totalTime = ustr ''10 hours'',
      it_totalFuelCost = Fin 0, it_totalAccommodationCost = Fin 0,
      it_travelMode = DRIVING\<rparr>"






section \<open>Tour files\<close>





datatype js_error = TypeError | SyntaxError













lemma ustr_inject: "ustr a = ustr b \<longleftrightarrow> a = b"
proof -
  have "inj (of_char :: char \<Rightarrow> nat)"
    by (rule injI) simp
  then show ?thesis
    unfolding ustr_def by (simp add: inj_map_eq_map)
qed


















section \<open>Colour spectrum\<close>

text \<open>
  \<open>_generateColorSpectrum\<close>. \<open>Math.round\<close> rounds to the nearest integer, a half upwards. The
  fractions are computed exactly; every division is by a positive count. A colour is the
  triple of its channels, \<open>rgb\<close> prints it as the template literal does.
\<close>

definition js_round :: "rat \<Rightarrow> int" where
  "js_round x = \<lfloor>x + 1 / 2\<rfloor>"

definition show_int :: "int \<Rightarrow> jsstring" where
  "show_int i = (if i < 0 then 45 # show_nat (nat (- i)) else show_nat (nat i))"

definition rgb :: "int \<Rightarrow> int \<Rightarrow> int \<Rightarrow> jsstring" where
  "rgb r g b =
     ustr ''rgb('' @ show_int r @ ustr '', '' @ show_int g @ ustr '', '' @ show_int b @ ustr '')''"

type_synonym colour = "rat \<times> rat \<times> rat"

definition green :: colour where "green = (0, 255, 0)"
definition blue :: colour where "blue = (0, 0, 255)"
definition red :: colour where "red = (255, 0, 0)"

definition blend :: "colour \<Rightarrow> colour \<Rightarrow> rat \<Rightarrow> jsstring" where
  "blend c1 c2 fraction =
     (case (c1, c2) of
        ((r1, g1, b1), (r2, g2, b2)) \<Rightarrow>
          rgb (js_round (r1 + (r2 - r1) * fraction))
              (js_round (g1 + (g2 - g1) * fraction))
              (js_round (b1 + (b2 - b1) * fraction)))"

definition generateColorSpectrum :: "nat \<Rightarrow> jsstring list" where
  "generateColorSpectrum steps =
     (if steps \<le> 1 then [ustr ''rgb(0, 255, 0)'']
      else
        (let midPointIndex = (steps - 1) div 2;
             firstHalf =
               map (\<lambda>i. blend green blue
                            (if midPointIndex = 0 then 1 else of_nat i / of_nat midPointIndex))
                   [0..<Suc midPointIndex];
             secondHalfSteps = steps - 1 - midPointIndex;
             secondHalf =
               map (\<lambda>i. blend blue red (of_nat i / of_nat secondHalfSteps))
                   [1..<Suc secondHalfSteps]
         in firstHalf @ secondHalf))"

lemma js_round_of_int: "js_round (of_int k) = k"
  unfolding js_round_def by linarith

lemma js_round_numeral: "js_round (numeral n) = numeral n" "js_round 0 = 0"
  using js_round_of_int [of "numeral n"] js_round_of_int [of 0] by simp_all

lemma show_255: "show_int 255 = ustr ''255''" "show_int 0 = ustr ''0''"
  by (simp_all add: show_int_def show_nat.simps ustr_def)

lemma blend_start: "blend green blue 0 = ustr ''rgb(0, 255, 0)''"
  by (simp add: blend_def green_def blue_def rgb_def js_round_numeral show_255) (simp add: ustr_def)

lemma blend_mid: "blend green blue 1 = ustr ''rgb(0, 0, 255)''"
  by (simp add: blend_def green_def blue_def rgb_def js_round_numeral show_255) (simp add: ustr_def)

lemma blend_end: "blend blue red 1 = ustr ''rgb(255, 0, 0)''"
  by (simp add: blend_def red_def blue_def rgb_def js_round_numeral show_255) (simp add: ustr_def)

lemma spectrum_unfold:
  assumes "2 \<le> n"
  shows "generateColorSpectrum n =
     map (\<lambda>i. blend green blue
                  (if (n - 1) div 2 = 0 then 1 else of_nat i / of_nat ((n - 1) div 2)))
         [0..<Suc ((n - 1) div 2)] @
     map (\<lambda>i. blend blue red (of_nat i / of_nat (n - 1 - (n - 1) div 2)))
         [1..<Suc (n - 1 - (n - 1) div 2)]"
  using assms by (simp add: generateColorSpectrum_def Let_def)

lemma spectrum_length: "length (generateColorSpectrum n) = max n 1"
proof (cases "2 \<le> n")
  case True
  then show ?thesis by (simp add: spectrum_unfold) linarith
next
  case False
  then show ?thesis by (simp add: generateColorSpectrum_def)
qed

lemma spectrum_first_half:
  assumes "2 \<le> n" "i \<le> (n - 1) div 2"
  shows "generateColorSpectrum n ! i =
     blend green blue (if (n - 1) div 2 = 0 then 1 else of_nat i / of_nat ((n - 1) div 2))"
proof -
  from assms(2) have "i < length [0..<Suc ((n - 1) div 2)]" by simp
  then show ?thesis
    using assms by (simp add: spectrum_unfold nth_append del: upt_Suc)
qed

lemma spectrum_second_half:
  assumes "2 \<le> n" "(n - 1) div 2 < i" "i < n"
  shows "generateColorSpectrum n ! i =
     blend blue red (of_nat (i - (n - 1) div 2) / of_nat (n - 1 - (n - 1) div 2))"
proof -
  let ?m = "(n - 1) div 2"
  let ?k = "n - 1 - ?m"
  have "i - Suc ?m < ?k" using assms by linarith
  then have "1 + (i - Suc ?m) < Suc ?k" by linarith
  then have "[1..<Suc ?k] ! (i - Suc ?m) = 1 + (i - Suc ?m)"
    by (rule nth_upt)
  moreover have "1 + (i - Suc ?m) = i - ?m" using assms by linarith
  ultimately have "[1..<Suc ?k] ! (i - Suc ?m) = i - ?m" by simp
  moreover have "length [1..<Suc ?k] = ?k"
    by (simp only: length_upt diff_Suc_1)
  then have "i - Suc ?m < length [1..<Suc ?k]"
    using \<open>i - Suc ?m < ?k\<close> by (simp only:)
  ultimately show ?thesis
    using assms by (simp add: spectrum_unfold nth_append del: upt_Suc)
qed

text \<open>
  Claim C2, as amended: \<open>_generateColorSpectrum(n)\<close> returns \<open>max(n, 1)\<close> colour strings. For
  \<open>n \<ge> 3\<close> the first is \<open>rgb(0, 255, 0)\<close>; for \<open>n \<ge> 2\<close> the colour at index \<open>floor((n-1)/2)\<close> is
  \<open>rgb(0, 0, 255)\<close>, the last is \<open>rgb(255, 0, 0)\<close>, and every colour is the rounded per-channel
  linear interpolation between those anchors; for \<open>n = 2\<close> the midpoint index is 0 and the
  result is blue, red; for \<open>n \<le> 1\<close> the result is the single colour \<open>rgb(0, 255, 0)\<close>.
\<close>

theorem generateColorSpectrum_anchors:
  "length (generateColorSpectrum n) = max n 1 \<and>
   (n \<le> 1 \<longrightarrow> generateColorSpectrum n = [ustr ''rgb(0, 255, 0)'']) \<and>
   (n = 2 \<longrightarrow> generateColorSpectrum n = [ustr ''rgb(0, 0, 255)'', ustr ''rgb(255, 0, 0)'']) \<and>
   (3 \<le> n \<longrightarrow> generateColorSpectrum n ! 0 = ustr ''rgb(0, 255, 0)'') \<and>
   (2 \<le> n \<longrightarrow>
      generateColorSpectrum n ! ((n - 1) div 2) = ustr ''rgb(0, 0, 255)'' \<and>
      generateColorSpectrum n ! (n - 1) = ustr ''rgb(255, 0, 0)'' \<and>
      (\<forall>i. i \<le> (n - 1) div 2 \<longrightarrow>
         generateColorSpectrum n ! i =
           blend green blue (if (n - 1) div 2 = 0 then 1 else of_nat i / of_nat ((n - 1) div 2))) \<and>
      (\<forall>i. (n - 1) div 2 < i \<and> i < n \<longrightarrow>
         generateColorSpectrum n ! i =
           blend blue red (of_nat (i - (n - 1) div 2) / of_nat (n - 1 - (n - 1) div 2))))"
proof (intro conjI impI allI)
  show "length (generateColorSpectrum n) = max n 1"
    by (rule spectrum_length)
next
  assume "n \<le> 1"
  then show "generateColorSpectrum n = [ustr ''rgb(0, 255, 0)'']"
    by (simp add: generateColorSpectrum_def)
next
  assume "n = 2"
  then show "generateColorSpectrum n = [ustr ''rgb(0, 0, 255)'', ustr ''rgb(255, 0, 0)'']"
    by (simp add: generateColorSpectrum_def blend_mid blend_end)
next
  assume n3: "3 \<le> n"
  then have m: "(n - 1) div 2 \<noteq> 0" by simp
  from n3 have "generateColorSpectrum n ! 0 =
      blend green blue (if (n - 1) div 2 = 0 then 1 else of_nat 0 / of_nat ((n - 1) div 2))"
    by (intro spectrum_first_half) simp_all
  with m show "generateColorSpectrum n ! 0 = ustr ''rgb(0, 255, 0)''"
    by (simp add: blend_start)
next
  assume n2: "2 \<le> n"
  then have "generateColorSpectrum n ! ((n - 1) div 2) =
      blend green blue (if (n - 1) div 2 = 0 then 1
                        else of_nat ((n - 1) div 2) / of_nat ((n - 1) div 2))"
    by (intro spectrum_first_half) simp_all
  then show "generateColorSpectrum n ! ((n - 1) div 2) = ustr ''rgb(0, 0, 255)''"
    by (simp add: blend_mid)
next
  assume n2: "2 \<le> n"
  let ?m = "(n - 1) div 2"
  from n2 have lt: "?m < n - 1" by linarith
  with n2 have "generateColorSpectrum n ! (n - 1) =
      blend blue red (of_nat (n - 1 - ?m) / of_nat (n - 1 - ?m))"
    by (intro spectrum_second_half) simp_all
  moreover from lt have "(of_nat (n - 1 - ?m) :: rat) \<noteq> 0" by simp
  ultimately show "generateColorSpectrum n ! (n - 1) = ustr ''rgb(255, 0, 0)''"
    by (simp add: blend_end)
next
  fix i
  assume "2 \<le> n" "i \<le> (n - 1) div 2"
  then show "generateColorSpectrum n ! i =
      blend green blue (if (n - 1) div 2 = 0 then 1 else of_nat i / of_nat ((n - 1) div 2))"
    by (rule spectrum_first_half)
next
  fix i
  assume "2 \<le> n" "(n - 1) div 2 < i \<and> i < n"
  then show "generateColorSpectrum n ! i =
      blend blue red (of_nat (i - (n - 1) div 2) / of_nat (n - 1 - (n - 1) div 2))"
    by (simp add: spectrum_second_half)
qed

theorem generateColorSpectrum_anchors_witness:
  "length (generateColorSpectrum 5) = max 5 1 \<and>
   generateColorSpectrum 5 =
     map ustr [''rgb(0, 255, 0)'', ''rgb(0, 128, 128)'', ''rgb(0, 0, 255)'',
               ''rgb(128, 0, 128)'', ''rgb(255, 0, 0)''] \<and>
   generateColorSpectrum 5 ! 1 = blend green blue (1 / 2) \<and>
   generateColorSpectrum 5 ! 3 = blend blue red (1 / 2) \<and>
   generateColorSpectrum 1 = [ustr ''rgb(0, 255, 0)''] \<and>
   generateColorSpectrum 2 = [ustr ''rgb(0, 0, 255)'', ustr ''rgb(255, 0, 0)'']"
proof -
  have a: "generateColorSpectrum 5 =
     map ustr [''rgb(0, 255, 0)'', ''rgb(0, 128, 128)'', ''rgb(0, 0, 255)'',
               ''rgb(128, 0, 128)'', ''rgb(255, 0, 0)'']"
    by code_simp
  from generateColorSpectrum_anchors [of 5]
  have b: "length (generateColorSpectrum 5) = max 5 1"
    and c: "generateColorSpectrum 5 ! 1 = blend green blue (1 / 2)"
    and d: "generateColorSpectrum 5 ! 3 = blend blue red (1 / 2)"
    by simp_all
  from generateColorSpectrum_anchors [of 1] generateColorSpectrum_anchors [of 2]
  have e: "generateColorSpectrum 1 = [ustr ''rgb(0, 255, 0)'']"
    and f: "generateColorSpectrum 2 = [ustr ''rgb(0, 0, 255)'', ustr ''rgb(255, 0, 0)'']"
    by simp_all
  from a b c d e f show ?thesis by (simp only: simp_thms)
qed

text \<open>
  With two legs the first colour is blue, not green; with no leg the result still has one
  colour.
\<close>

theorem generateColorSpectrum_two_counterexample:
  "generateColorSpectrum 2 ! 0 = ustr ''rgb(0, 0, 255)'' \<and>
   generateColorSpectrum 2 ! 0 \<noteq> ustr ''rgb(0, 255, 0)'' \<and>
   length (generateColorSpectrum 0) \<noteq> 0"
  by (simp add: generateColorSpectrum_def blend_mid blend_end ustr_inject)


section \<open>Route animation\<close>

text \<open>
  \<open>_drawLegPolyline\<close> puts the polyline of one leg on the map, 5 m above its path, and records
  it in \<open>routePolylines\<close>; it does nothing without the polyline constructor.
\<close>

definition leg_polyline :: "ItineraryLeg \<Rightarrow> Polyline3D" where
  "leg_polyline leg =
     \<lparr>coordinates = map (\<lambda>p. \<lparr>lat = lat p, lng = lng p, altitude = 5\<rparr>) (leg_path leg),
      strokeColor = leg_color leg, strokeWidth = 10\<rparr>"

definition drawLegPolyline :: "ItineraryLeg \<Rightarrow> MapApp \<Rightarrow> MapApp \<times> Polyline3D option" where
  "drawLegPolyline leg st =
     (if \<not> has_Polyline3DElement st then (st, None)
      else (st\<lparr>routePolylines := routePolylines st @ [leg_polyline leg]\<rparr>,
            Some (leg_polyline leg)))"

definition drawStaticRoute :: "MapApp \<Rightarrow> MapApp" where
  "drawStaticRoute st =
     (case itineraryData st of
        None \<Rightarrow> st
      | Some it \<Rightarrow>
          fold (\<lambda>leg s. fst (drawLegPolyline leg s)) (it_legs it) (st\<lparr>routePolylines := []\<rparr>))"

text \<open>
  An animation loop between two of its timeouts: the animation id and the arguments it was
  called with, and the legs the \<open>for\<close> loop has still to draw. A loop runs in pieces: from
  its call, or from the end of a timeout, to its next \<open>await\<close>; other handlers run in between.
  Each piece returns the new state, the loop as it waits for its next timeout of
  \<open>task_delayPerLeg\<close> milliseconds (\<open>None\<close> when it has returned), and what it drew.
\<close>

record LoopTask =
  task_animationId :: nat
  task_legsData :: "ItineraryLeg list"
  task_delayPerLeg :: rat
  task_remaining :: "ItineraryLeg list"

text \<open>One pass of the \<open>for\<close> loop: the guard, the drawing, then the timeout.\<close>

definition draw_next ::
  "LoopTask \<Rightarrow> ItineraryLeg \<Rightarrow> ItineraryLeg list \<Rightarrow> MapApp \<Rightarrow> MapApp \<times> LoopTask option \<times> effect list" where
  "draw_next t leg rest st =
     (if task_animationId t \<noteq> currentAnimationId st \<or> animationSpeed st = 100
      then (st, None, [])
      else
        (case drawLegPolyline leg st of
           (st1, polyline) \<Rightarrow>
             (st1, Some (t\<lparr>task_remaining := rest\<rparr>),
              (case polyline of
                 None \<Rightarrow> []
               | Some p \<Rightarrow> [LoopDraw (task_animationId t) p]))))"

text \<open>
  A call of \<open>_runAnimationLoop\<close>, up to its first timeout. With no leg the source calls itself
  again at once, without ever reaching an \<open>await\<close>, until the stack overflows; all that is left
  of that is the cleared list. \<open>_startAnimation\<close> never passes an empty list.
\<close>

definition runAnimationLoop ::
  "nat \<Rightarrow> ItineraryLeg list \<Rightarrow> rat \<Rightarrow> MapApp \<Rightarrow> MapApp \<times> LoopTask option \<times> effect list" where
  "runAnimationLoop animationId legsData delayPerLeg st =
     (if animationId \<noteq> currentAnimationId st \<or> animationSpeed st = 100 then (st, None, [])
      else
        (let st1 = st\<lparr>routePolylines := []\<rparr>;
             t = \<lparr>task_animationId = animationId, task_legsData = legsData,
                  task_delayPerLeg = delayPerLeg, task_remaining = legsData\<rparr>
         in case legsData of
              [] \<Rightarrow> (st1, None, [])
            | leg # rest \<Rightarrow> draw_next t leg rest st1))"

text \<open>
  The loop after a timeout: the next pass of the \<open>for\<close> loop, or, after the last leg, the check
  that starts the next round.
\<close>

definition resume :: "LoopTask \<Rightarrow> MapApp \<Rightarrow> MapApp \<times> LoopTask option \<times> effect list" where
  "resume t st =
     (case task_remaining t of
        leg # rest \<Rightarrow> draw_next t leg rest st
      | [] \<Rightarrow>
          if task_animationId t = currentAnimationId st \<and> animationSpeed st < 100
          then runAnimationLoop (task_animationId t) (task_legsData t) (task_delayPerLeg t) st
          else (st, None, []))"

definition startAnimation :: "MapApp \<Rightarrow> MapApp \<times> LoopTask option \<times> effect list" where
  "startAnimation st =
     (case itineraryData st of
        None \<Rightarrow> (st, None, [])
      | Some it \<Rightarrow>
          if it_legs it = [] then (st, None, [])
          else
            (let animationId = currentAnimationId st;
                 speed = animationSpeed st
             in if speed \<ge> 100 then (drawStaticRoute st, None, [])
                else
                  (let legCount = length (it_legs it);
                       maxTotalDuration = 2000 * of_nat legCount;
                       minTotalDuration = 1000;
                       totalDuration = maxTotalDuration -
                         (of_int speed / 99) * (maxTotalDuration - minTotalDuration);
                       delayPerLeg = (if legCount > 0 then totalDuration / of_nat legCount else 0)
                   in runAnimationLoop animationId (it_legs it) delayPerLeg st)))"

definition stopAnimation :: "MapApp \<Rightarrow> MapApp" where
  "stopAnimation st = drawStaticRoute (st\<lparr>currentAnimationId := currentAnimationId st + 1\<rparr>)"

definition updateRouteAnimation :: "MapApp \<Rightarrow> MapApp \<times> LoopTask option \<times> effect list" where
  "updateRouteAnimation st =
     (case itineraryData st of
        None \<Rightarrow> (st, None, [])
      | Some it \<Rightarrow>
          (let st1 = st\<lparr>currentAnimationId := currentAnimationId st + 1\<rparr>
           in if animationSpeed st1 = 100 then (drawStaticRoute st1, None, [])
              else startAnimation st1))"

definition handleAnimationSpeedChange ::
  "int \<Rightarrow> MapApp \<Rightarrow> MapApp \<times> LoopTask option \<times> effect list" where
  "handleAnimationSpeedChange v st = updateRouteAnimation (st\<lparr>animationSpeed := v\<rparr>)"

definition clearMapElements :: "MapApp \<Rightarrow> MapApp" where
  "clearMapElements st =
     st\<lparr>currentAnimationId := currentAnimationId st + 1,
        marker := None, routePolylines := [], stopMarkers := [],
        backgroundRoutePolyline := None, itineraryData := None\<rparr>"




subsection \<open>Cadence\<close>













text \<open>The sample itinerary on the map, at the default speed of 75.\<close>

definition example_route_shown :: MapApp where
  "example_route_shown =
     initial_state\<lparr>itineraryData := Some example_itinerary, has_Polyline3DElement := True\<rparr>"



section \<open>Directions and itinerary\<close>

text \<open>
  Arithmetic on \<open>number\<close>: exact on finite values, with the IEEE rules for infinities and
  NaN. Zero is taken as +0.
\<close>

fun js_add :: "number \<Rightarrow> number \<Rightarrow> number" where
  "js_add (Fin a) (Fin b) = Fin (a + b)"
| "js_add NaN y = NaN"
| "js_add x NaN = NaN"
| "js_add PosInf NegInf = NaN"
| "js_add NegInf PosInf = NaN"
| "js_add PosInf y = PosInf"
| "js_add x PosInf = PosInf"
| "js_add NegInf y = NegInf"
| "js_add x NegInf = NegInf"

definition signed_inf :: "bool \<Rightarrow> number" where
  "signed_inf positive = (if positive then PosInf else NegInf)"

fun js_mul :: "number \<Rightarrow> number \<Rightarrow> number" where
  "js_mul (Fin a) (Fin b) = Fin (a * b)"
| "js_mul NaN y = NaN"
| "js_mul x NaN = NaN"
| "js_mul (Fin a) PosInf = (if a = 0 then NaN else signed_inf (0 < a))"
| "js_mul (Fin a) NegInf = (if a = 0 then NaN else signed_inf (a < 0))"
| "js_mul PosInf (Fin b) = (if b = 0 then NaN else signed_inf (0 < b))"
| "js_mul NegInf (Fin b) = (if b = 0 then NaN else signed_inf (b < 0))"
| "js_mul PosInf PosInf = PosInf"
| "js_mul PosInf NegInf = NegInf"
| "js_mul NegInf PosInf = NegInf"
| "js_mul NegInf NegInf = PosInf"

fun js_div :: "number \<Rightarrow> number \<Rightarrow> number" where
  "js_div (Fin a) (Fin b) =
     (if b = 0 then (if a = 0 then NaN else signed_inf (0 < a)) else Fin (a / b))"
| "js_div NaN y = NaN"
| "js_div x NaN = NaN"
| "js_div (Fin a) y = Fin 0"
| "js_div PosInf (Fin b) = signed_inf (0 \<le> b)"
| "js_div NegInf (Fin b) = signed_inf (b < 0)"
| "js_div x y = NaN"

definition METERS_TO_MILES :: rat where
  "METERS_TO_MILES = 621371 / 1000000000"

definition DEFAULT_GAS_PRICE_PER_GALLON :: rat where
  "DEFAULT_GAS_PRICE_PER_GALLON = 7 / 2"


definition reduce_add :: "number list \<Rightarrow> number" where
  "reduce_add xs = foldl js_add (Fin 0) xs"

lemma js_add_commute: "js_add x y = js_add y x"
  by (cases x; cases y) (simp_all add: add.commute)






text \<open>
  \<open>String.prototype.includes\<close> and \<open>split\<close> for a non-empty separator (the source splits at
  \<open>;;;\<close>, at \<open>|\<close> and at line feeds).
\<close>

fun js_includes :: "'a list \<Rightarrow> 'a list \<Rightarrow> bool" where
  "js_includes sub [] = (sub = [])"
| "js_includes sub (c # cs) = (take (length sub) (c # cs) = sub \<or> js_includes sub cs)"

function js_split :: "'a list \<Rightarrow> 'a list \<Rightarrow> 'a list list" where
  "js_split sep [] = [[]]"
| "js_split sep (c # cs) =
     (if sep \<noteq> [] \<and> take (length sep) (c # cs) = sep
      then [] # js_split sep (drop (length sep) (c # cs))
      else (case js_split sep cs of
              [] \<Rightarrow> [[c]]
            | w # ws \<Rightarrow> (c # w) # ws))"
  by pat_completeness auto
termination
  by (relation "measure (\<lambda>(sep, s). length s)") (auto simp: neq_Nil_conv)

text \<open>
  A stop is given as \<open>query\<close> or as \<open>name;;;query\<close>. \<open>split(';;;')\<close> has at least two pieces
  when the separator occurs, so the indices 0 and 1 are in range.
\<close>

definition stop_query :: "jsstring \<Rightarrow> jsstring" where
  "stop_query s = (if js_includes (ustr '';;;'') s then js_split (ustr '';;;'') s ! 1 else s)"

definition stop_label :: "jsstring \<Rightarrow> jsstring" where
  "stop_label s = (if js_includes (ustr '';;;'') s then js_split (ustr '';;;'') s ! 0 else s)"

definition addMessage :: "string \<Rightarrow> jsstring \<Rightarrow> MapApp \<Rightarrow> MapApp" where
  "addMessage role text st = st\<lparr>messages := messages st @ [(ustr role, text)]\<rparr>"

text \<open>
  \<open>_handleViewLocation\<close> up to its \<open>await\<close> of the geocoder, and what it does with the answer.
\<close>

definition handleViewLocation :: "jsstring \<Rightarrow> MapApp \<Rightarrow> MapApp \<times> effect list" where
  "handleViewLocation locationQuery st =
     (if \<not> mapInitialized st \<or> \<not> has_map st \<or> \<not> has_geocoder st \<or> \<not> has_Marker3DElement st
      then ((if mapError st = []
             then addMessage ''error''
                    (ustr ''Map is not ready to display locations. Please check configuration.'') st
             else st), [])
      else (clearMapElements st, [GeocodeRequest locationQuery]))"

definition handleViewLocation_reply ::
  "jsstring \<Rightarrow> geocode_reply \<Rightarrow> MapApp \<Rightarrow> MapApp \<times> effect list" where
  "handleViewLocation_reply locationQuery reply st =
     (case reply of
        GeocodeRejected message \<Rightarrow>
          (addMessage ''error''
             (ustr ''Could not find location: '' @ locationQuery @ ustr ''. Reason: '' @ message) st,
           [])
      | GeocodeResolved [] \<Rightarrow> (st, [])
      | GeocodeResolved (result # _) \<Rightarrow>
          (let location = geometry_location result;
               cameraOptions =
                 \<lparr>cam_center = \<lparr>lat = lat location, lng = lng location, altitude = 0\<rparr>,
                  cam_heading = 0, cam_tilt = 135 / 2, cam_range = 2000\<rparr>;
               label = (if length locationQuery > 30
                        then take 27 locationQuery @ ustr ''...''
                        else locationQuery)
           in (st\<lparr>marker := Some \<lparr>marker_position = \<lparr>lat = lat location, lng = lng location\<rparr>,
                                    marker_altitude = Some 0, marker_label = label,
                                    marker_color = None\<rparr>\<rparr>,
               [FlyCameraTo cameraOptions 1500])))"

text \<open>\<open>_handleDirections\<close> up to the request it sends; the callback follows below.\<close>

definition handleDirections ::
  "jsstring list \<Rightarrow> number list option \<Rightarrow> jsstring list option \<Rightarrow> travel_mode option \<Rightarrow>
   jsstring list option \<Rightarrow> MapApp \<Rightarrow> MapApp \<times> effect list" where
  "handleDirections stopsWithNames accommodationCosts dates travelMode hotelNames st =
     (if \<not> mapInitialized st \<or> \<not> has_map st \<or> \<not> has_directionsService st \<or>
         \<not> has_Marker3DElement st \<or> \<not> has_Polyline3DElement st \<or> \<not> has_geocoder st
      then ((if mapError st = []
             then addMessage ''error''
                    (ustr ''Map is not ready for directions. Please check configuration.'') st
             else st), [])
      else
        (let st1 = clearMapElements st;
             animationId = currentAnimationId st1;
             stopQueries = map stop_query stopsWithNames;
             stopNames = map stop_label stopsWithNames;
             origin = (case stopQueries of [] \<Rightarrow> None | q # _ \<Rightarrow> Some q);
             destination = (if stopQueries = [] then None else Some (last stopQueries));
             waypoints = butlast (tl stopQueries);
             selectedTravelMode = (case travelMode of None \<Rightarrow> DRIVING | Some m \<Rightarrow> m)
         in (st1,
             [RouteRequest
                \<lparr>req_origin = origin, req_destination = destination, req_waypoints = waypoints,
                 req_travelMode = selectedTravelMode, req_animationId = animationId,
                 req_stopNames = stopNames, req_accommodationCosts = accommodationCosts,
                 req_dates = dates, req_hotelNames = hotelNames\<rparr>])))"

text \<open>The parameters of a map query (\<^verbatim>\<open>mcp_maps_server.ts\<close>) and \<open>handleMapQuery\<close>.\<close>

record MapParams =
  param_location :: "jsstring option"
  param_stops :: "jsstring list option"
  param_accommodationCosts :: "number list option"
  param_dates :: "jsstring list option"
  param_travelMode :: "travel_mode option"
  param_hotelNames :: "jsstring list option"

definition handleMapQuery :: "MapParams \<Rightarrow> MapApp \<Rightarrow> MapApp \<times> effect list" where
  "handleMapQuery params st =
     (case param_location params of
        Some (c # cs) \<Rightarrow> handleViewLocation (c # cs) st
      | _ \<Rightarrow>
          (case param_stops params of
             None \<Rightarrow> (st, [])
           | Some stops \<Rightarrow>
               if length stops \<ge> 2
               then handleDirections stops (param_accommodationCosts params) (param_dates params)
                      (param_travelMode params) (param_hotelNames params)
                      (st\<lparr>activeRightSidebarTab := ItineraryTab\<rparr>)
               else (st, [])))"


text \<open>
  Claim C8: for every \<open>params\<close> where \<open>location\<close> is absent and \<open>stops\<close> is absent or has fewer
  than 2 entries, \<open>handleMapQuery\<close> is a no-op: no geocoding or directions request is issued,
  no map element is added or removed, and \<open>itineraryData\<close>, the active sidebar tab and all other
  component state are left unchanged.
\<close>

theorem handleMapQuery_noop:
  "param_location params = None \<and>
   (param_stops params = None \<or> (\<exists>stops. param_stops params = Some stops \<and> length stops < 2))
   \<longrightarrow> handleMapQuery params st = (st, [])"
  by (auto simp: handleMapQuery_def)

text \<open>The component once the map and its services are loaded.\<close>

definition example_ready :: MapApp where
  "example_ready =
     initial_state\<lparr>mapInitialized := True, has_map := True, has_geocoder := True,
        has_directionsService := True, has_Marker3DElement := True,
        has_Polyline3DElement := True\<rparr>"

definition example_params :: "jsstring list option \<Rightarrow> MapParams" where
  "example_params stops =
     \<lparr>param_location = None, param_stops = stops, param_accommodationCosts = Some [Fin 165],
      param_dates = None, param_travelMode = None, param_hotelNames = None\<rparr>"

theorem handleMapQuery_noop_witness:
  "param_location (example_params (Some [ustr ''Boise''])) = None \<and>
   param_stops (example_params (Some [ustr ''Boise''])) = Some [ustr ''Boise''] \<and>
   length [ustr ''Boise''] < 2 \<and>
   handleMapQuery (example_params (Some [ustr ''Boise''])) example_route_shown =
     (example_route_shown, []) \<and>
   handleMapQuery (example_params None) example_ready = (example_ready, []) \<and>
   fst (handleMapQuery (example_params (Some [ustr ''Boise'', ustr ''Reno''])) example_ready) \<noteq>
     example_ready"
proof -
  have a: "handleMapQuery (example_params (Some [ustr ''Boise''])) example_route_shown =
     (example_route_shown, [])"
    using handleMapQuery_noop [of "example_params (Some [ustr ''Boise''])" example_route_shown]
    by (simp add: example_params_def)
  have b: "handleMapQuery (example_params None) example_ready = (example_ready, [])"
    using handleMapQuery_noop [of "example_params None" example_ready]
    by (simp add: example_params_def)
  have c: "currentAnimationId (fst (handleMapQuery
      (example_params (Some [ustr ''Boise'', ustr ''Reno''])) example_ready)) = 1"
    by (simp add: handleMapQuery_def example_params_def handleDirections_def Let_def
        example_ready_def initial_state_def clearMapElements_def)
  have "currentAnimationId example_ready = 0"
    by (simp add: example_ready_def initial_state_def)
  with c have d: "fst (handleMapQuery (example_params (Some [ustr ''Boise'', ustr ''Reno'']))
      example_ready) \<noteq> example_ready"
    by auto
  from a b d show ?thesis by (simp add: example_params_def)
qed


subsection \<open>The directions callback\<close>

text \<open>
  A leg of a route as the directions service returns it. \<open>rl_path\<close> is the concatenation of
  the paths of its steps and \<open>rl_bounds\<close> the bounds \<open>LatLngBounds.extend\<close> builds from them.
\<close>

record RouteLeg =
  rl_distance_text :: jsstring
  rl_distance_value :: number
  rl_duration_text :: jsstring
  rl_duration_value :: number
  rl_start_address :: jsstring
  rl_end_address :: jsstring
  rl_start_location :: LatLng
  rl_end_location :: LatLng
  rl_path :: "LatLng list"
  rl_bounds :: LatLngBounds

record DirectionsRoute =
  route_legs :: "RouteLeg list"
  route_bounds :: LatLngBounds

text \<open>
  \<open>_formatTotalDuration\<close> on any number: on a finite non-negative one it sees only the whole
  seconds; a negative one or NaN gives no component; on \<open>Infinity\<close> the day count is infinite
  and the remainder is NaN.
\<close>

definition formatTotalDuration_number :: "number \<Rightarrow> jsstring" where
  "formatTotalDuration_number x =
     (case x of
        Fin r \<Rightarrow> if r < 0 then [] else formatTotalDuration (nat \<lfloor>r\<rfloor>)
      | PosInf \<Rightarrow> ustr ''Infinity days''
      | _ \<Rightarrow> [])"

text \<open>
  \<open>stopNames[i]\<close> in a label, and the optional arrays read with \<open>?.[i]\<close>. The directions
  service returns one leg less than there are stops, so the names are in range; a missing one
  would print as \<open>undefined\<close>.
\<close>

definition name_at :: "jsstring list \<Rightarrow> nat \<Rightarrow> jsstring" where
  "name_at names i = (if i < length names then names ! i else ustr ''undefined'')"

definition opt_at :: "'a list option \<Rightarrow> nat \<Rightarrow> 'a option" where
  "opt_at xs i = (case xs of None \<Rightarrow> None | Some ys \<Rightarrow> if i < length ys then Some (ys ! i) else None)"

definition leg_fuel_cost :: "travel_mode \<Rightarrow> number \<Rightarrow> RouteLeg \<Rightarrow> number" where
  "leg_fuel_cost selectedTravelMode mpg_value leg =
     (let distanceMiles = js_mul (rl_distance_value leg) (Fin METERS_TO_MILES)
      in if selectedTravelMode = DRIVING
         then js_mul (js_div distanceMiles mpg_value) (Fin DEFAULT_GAS_PRICE_PER_GALLON)
         else Fin 0)"

text \<open>
  The body of \<open>route.legs.forEach\<close>: the marker and the stop at the end of the leg, the leg
  itself, and the running total of the fuel cost.
\<close>

fun process_legs ::
  "DirectionsRequest \<Rightarrow> number \<Rightarrow> jsstring list \<Rightarrow> RouteLeg list \<Rightarrow> nat \<Rightarrow>
   ItineraryData \<times> Marker3D list \<Rightarrow> ItineraryData \<times> Marker3D list" where
  "process_legs req mpg_value spectrumColors [] index acc = acc"
| "process_legs req mpg_value spectrumColors (leg # rest) index (newItineraryData, markers) =
     (let legColor = spectrumColors ! index;
          stopMarker = \<lparr>marker_position = rl_end_location leg, marker_altitude = None,
                         marker_label = show_nat (index + 2) @ ustr '': '' @
                                        name_at (req_stopNames req) (index + 1),
                         marker_color = Some legColor\<rparr>;
          destStop = \<lparr>stop_name = name_at (req_stopNames req) (index + 1),
                       stop_hotelName = opt_at (req_hotelNames req) (index + 1),
                       stop_address = rl_end_address leg,
                       stop_accommodationCost = opt_at (req_accommodationCosts req) index,
                       stop_location = rl_end_location leg,
                       stop_color = legColor,
                       stop_date = opt_at (req_dates req) (index + 1)\<rparr>;
          fuelCost = leg_fuel_cost (req_travelMode req) mpg_value leg;
          newLeg = \<lparr>leg_distanceText = rl_distance_text leg,
                     leg_distanceValue = rl_distance_value leg,
                     leg_durationText = rl_duration_text leg,
                     leg_fuelCost = fuelCost,
                     leg_path = rl_path leg,
                     leg_bounds = rl_bounds leg,
                     leg_color = legColor\<rparr>
      in process_legs req mpg_value spectrumColors rest (Suc index)
           (newItineraryData\<lparr>it_stops := it_stops newItineraryData @ [destStop],
                              it_legs := it_legs newItineraryData @ [newLeg],
                              it_totalFuelCost := js_add (it_totalFuelCost newItineraryData) fuelCost\<rparr>,
            markers @ [stopMarker]))"

definition zoomToBounds :: "bool \<Rightarrow> LatLngBounds \<Rightarrow> effect" where
  "zoomToBounds has_geometry bounds =
     (let center = bounds_center bounds;
          range0 = (if has_geometry then bounds_diagonal bounds * (17 / 10) else 10000);
          range1 = max range0 2000
      in FlyCameraTo \<lparr>cam_center = \<lparr>lat = lat center, lng = lng center, altitude = 0\<rparr>,
                      cam_heading = 0, cam_tilt = 45, cam_range = range1\<rparr> 2000)"

text \<open>
  The callback of \<open>directionsService.route\<close>, for the request whose closure is \<open>req\<close>. The
  response is \<open>None\<close> when it is null or has no \<open>routes\<close>. Building the background polyline
  throws when the polyline constructor is missing, after the itinerary has been stored.
\<close>

definition directionsCallback ::
  "bool \<Rightarrow> DirectionsRequest \<Rightarrow> DirectionsRoute list option \<Rightarrow> jsstring \<Rightarrow> MapApp \<Rightarrow>
   MapApp \<times> LoopTask option \<times> effect list" where
  "directionsCallback has_geometry req response status st =
     (if req_animationId req \<noteq> currentAnimationId st then (st, None, [])
      else
        (case (if status = ustr ''OK'' then response else None) of
           Some (route # _) \<Rightarrow>
             (let legs = route_legs route;
                  spectrumColors = generateColorSpectrum (length legs);
                  newItineraryData0 =
                    \<lparr>it_stops = [], it_legs = [],
                     it_totalDistance = reduce_add (map rl_distance_value legs),
                     it_totalTime =
                       formatTotalDuration_number (reduce_add (map rl_duration_value legs)),
                     it_totalFuelCost = Fin 0,
                     it_totalAccommodationCost =
                       (case req_accommodationCosts req of
                          Some costs \<Rightarrow> reduce_add costs
                        | None \<Rightarrow> Fin 0),
                     it_travelMode = req_travelMode req\<rparr>;
                  (newItineraryData, markers) =
                    (case legs of
                       first # _ \<Rightarrow>
                         if has_Marker3DElement st
                         then
                           (let originColor = spectrumColors ! 0;
                                originMarker =
                                  \<lparr>marker_position = rl_start_location first,
                                   marker_altitude = None,
                                   marker_label = ustr ''1: '' @ name_at (req_stopNames req) 0,
                                   marker_color = Some originColor\<rparr>;
                                originStop =
                                  \<lparr>stop_name = name_at (req_stopNames req) 0,
                                   stop_hotelName = opt_at (req_hotelNames req) 0,
                                   stop_address = rl_start_address first,
                                   stop_accommodationCost = None,
                                   stop_location = rl_start_location first,
                                   stop_color = originColor,
                                   stop_date = opt_at (req_dates req) 0\<rparr>
                            in process_legs req (mpg st) spectrumColors legs 0
                                 (newItineraryData0\<lparr>it_stops := [originStop]\<rparr>,
                                  stopMarkers st @ [originMarker]))
                         else (newItineraryData0, stopMarkers st)
                     | [] \<Rightarrow> (newItineraryData0, stopMarkers st));
                  st1 = st\<lparr>stopMarkers := markers, itineraryData := Some newItineraryData\<rparr>;
                  zoom = zoomToBounds has_geometry (route_bounds route)
              in if \<not> has_Polyline3DElement st1 then (st1, None, [zoom])
                 else
                   (let fullPath = concat (map rl_path legs);
                        st2 = st1\<lparr>backgroundRoutePolyline :=
                                Some \<lparr>coordinates =
                                        map (\<lambda>p. \<lparr>lat = lat p, lng = lng p, altitude = 0\<rparr>) fullPath,
                                      strokeColor = ustr ''#B0B0B0'', strokeWidth = 10\<rparr>\<rparr>
                    in case updateRouteAnimation st2 of
                         (st3, task, draws) \<Rightarrow> (st3, task, zoom # draws)))
         | _ \<Rightarrow>
             (addMessage ''error'' (ustr ''Could not get directions. Reason: '' @ status) st,
              None, [])))"


















section \<open>Handlers and animation loops interleaved\<close>

text \<open>
  The component together with the animation loops that wait for a timeout. An event is one
  handler run to its next \<open>await\<close>: the timeout of a waiting loop, a move of the speed slider, a
  map query, the answer to a directions request, or a direct call of one of the functions
  that invalidate the running animation. \<open>run\<close> executes a sequence of events and collects
  what they ask of the outside world.
\<close>

datatype event =
    Timeout nat
  | SpeedSlider int
  | MapQuery MapParams
  | DirectionsResponse DirectionsRequest "DirectionsRoute list option" jsstring
  | ClearMapElements
  | StopAnimation
  | UpdateRouteAnimation

type_synonym system = "MapApp \<times> LoopTask list"

definition waiting :: "LoopTask list \<Rightarrow> LoopTask option \<Rightarrow> LoopTask list" where
  "waiting tasks t = (case t of None \<Rightarrow> tasks | Some t1 \<Rightarrow> tasks @ [t1])"

definition step :: "bool \<Rightarrow> event \<Rightarrow> system \<Rightarrow> system \<times> effect list" where
  "step has_geometry e sys =
     (case sys of
        (st, tasks) \<Rightarrow>
          (case e of
             Timeout i \<Rightarrow>
               if i < length tasks
               then (case resume (tasks ! i) st of
                       (st1, t1, ds) \<Rightarrow>
                         ((st1, waiting (take i tasks @ drop (Suc i) tasks) t1), ds))
               else (sys, [])
           | SpeedSlider v \<Rightarrow>
               (case handleAnimationSpeedChange v st of
                  (st1, t1, ds) \<Rightarrow> ((st1, waiting tasks t1), ds))
           | MapQuery params \<Rightarrow>
               (case handleMapQuery params st of
                  (st1, ds) \<Rightarrow> ((st1, tasks), ds))
           | DirectionsResponse req response status \<Rightarrow>
               (case directionsCallback has_geometry req response status st of
                  (st1, t1, ds) \<Rightarrow> ((st1, waiting tasks t1), ds))
           | ClearMapElements \<Rightarrow> ((clearMapElements st, tasks), [])
           | StopAnimation \<Rightarrow> ((stopAnimation st, tasks), [])
           | UpdateRouteAnimation \<Rightarrow>
               (case updateRouteAnimation st of
                  (st1, t1, ds) \<Rightarrow> ((st1, waiting tasks t1), ds))))"

fun run :: "bool \<Rightarrow> event list \<Rightarrow> system \<Rightarrow> system \<times> effect list" where
  "run has_geometry [] sys = (sys, [])"
| "run has_geometry (e # es) sys =
     (case step has_geometry e sys of
        (sys1, ds1) \<Rightarrow>
          (case run has_geometry es sys1 of
             (sys2, ds2) \<Rightarrow> (sys2, ds1 @ ds2)))"

text \<open>The animation ids under which the polylines of a list of effects were drawn.\<close>

fun loop_draw_ids :: "effect list \<Rightarrow> nat list" where
  "loop_draw_ids [] = []"
| "loop_draw_ids (LoopDraw a p # ds) = a # loop_draw_ids ds"
| "loop_draw_ids (d # ds) = loop_draw_ids ds"

lemma loop_draw_ids_append: "loop_draw_ids (xs @ ys) = loop_draw_ids xs @ loop_draw_ids ys"
  by (induction xs rule: loop_draw_ids.induct) simp_all

text \<open>
  A result keeps the bound \<open>c\<close>: the animation id has not fallen below it, and every polyline
  was drawn under an id of at least \<open>c\<close>.
\<close>

definition keeps :: "nat \<Rightarrow> MapApp \<Rightarrow> effect list \<Rightarrow> bool" where
  "keeps c st ds \<longleftrightarrow> c \<le> currentAnimationId st \<and> list_all (\<lambda>a. c \<le> a) (loop_draw_ids ds)"

lemma keeps_mono: "c \<le> c' \<Longrightarrow> keeps c' st ds \<Longrightarrow> keeps c st ds"
  unfolding keeps_def list_all_iff by (meson order_trans)

lemma currentAnimationId_drawStaticRoute:
  "currentAnimationId (drawStaticRoute st) = currentAnimationId st"
proof -
  have "currentAnimationId (fold (\<lambda>leg s. fst (drawLegPolyline leg s)) legs s0)
      = currentAnimationId s0" for legs s0
    by (induction legs arbitrary: s0) (simp_all add: drawLegPolyline_def)
  then show ?thesis
    by (simp add: drawStaticRoute_def split: option.splits)
qed

lemma keeps_draw_next:
  "draw_next t leg rest st = (st1, t1, ds) \<Longrightarrow> keeps (currentAnimationId st) st1 ds"
  by (auto simp: draw_next_def drawLegPolyline_def keeps_def split: if_splits)

lemma keeps_runAnimationLoop:
  "runAnimationLoop a legs d st = (st1, t1, ds) \<Longrightarrow> keeps (currentAnimationId st) st1 ds"
proof (cases "a \<noteq> currentAnimationId st \<or> animationSpeed st = 100")
  case True
  moreover assume "runAnimationLoop a legs d st = (st1, t1, ds)"
  ultimately show ?thesis by (auto simp: runAnimationLoop_def keeps_def)
next
  case False
  assume r: "runAnimationLoop a legs d st = (st1, t1, ds)"
  show ?thesis
  proof (cases legs)
    case Nil
    with False r show ?thesis by (auto simp: runAnimationLoop_def keeps_def)
  next
    case (Cons leg rest)
    with False r have "draw_next \<lparr>task_animationId = a, task_legsData = legs,
                  task_delayPerLeg = d, task_remaining = legs\<rparr> leg rest
        (st\<lparr>routePolylines := []\<rparr>) = (st1, t1, ds)"
      by (simp add: runAnimationLoop_def Let_def)
    from keeps_draw_next [OF this] show ?thesis by simp
  qed
qed

lemma keeps_resume:
  "resume t st = (st1, t1, ds) \<Longrightarrow> keeps (currentAnimationId st) st1 ds"
proof (cases "task_remaining t")
  case Nil
  assume "resume t st = (st1, t1, ds)"
  with Nil show ?thesis
    by (auto simp: resume_def keeps_def split: if_splits dest: keeps_runAnimationLoop)
next
  case (Cons leg rest)
  moreover assume "resume t st = (st1, t1, ds)"
  ultimately show ?thesis by (simp add: resume_def keeps_draw_next)
qed

lemma keeps_startAnimation:
  "startAnimation st = (st1, t1, ds) \<Longrightarrow> keeps (currentAnimationId st) st1 ds"
  by (auto simp: startAnimation_def Let_def keeps_def currentAnimationId_drawStaticRoute
      split: option.splits if_splits dest: keeps_runAnimationLoop)

lemma keeps_updateRouteAnimation:
  "updateRouteAnimation st = (st1, t1, ds) \<Longrightarrow> keeps (currentAnimationId st) st1 ds"
proof (cases "itineraryData st")
  case None
  moreover assume "updateRouteAnimation st = (st1, t1, ds)"
  ultimately show ?thesis by (auto simp: updateRouteAnimation_def keeps_def)
next
  case (Some it)
  assume u: "updateRouteAnimation st = (st1, t1, ds)"
  let ?s = "st\<lparr>currentAnimationId := currentAnimationId st + 1\<rparr>"
  show ?thesis
  proof (cases "animationSpeed st = 100")
    case True
    with Some u show ?thesis
      by (auto simp: updateRouteAnimation_def Let_def keeps_def currentAnimationId_drawStaticRoute)
  next
    case False
    with Some u have "startAnimation ?s = (st1, t1, ds)"
      by (simp add: updateRouteAnimation_def Let_def)
    from keeps_startAnimation [OF this] have "keeps (currentAnimationId st + 1) st1 ds"
      by simp
    then show ?thesis by (rule keeps_mono [rotated]) simp
  qed
qed


lemma directionsCallback_shape:
  assumes fresh: "req_animationId req = currentAnimationId st"
    and ok: "(if status = ustr ''OK'' then response else None) = Some (route # rest)"
  shows "\<exists>d mks bg.
     directionsCallback g req response status st =
       (if \<not> has_Polyline3DElement st
        then (st\<lparr>stopMarkers := mks, itineraryData := Some d\<rparr>, None,
              [zoomToBounds g (route_bounds route)])
        else (case updateRouteAnimation
                     (st\<lparr>stopMarkers := mks, itineraryData := Some d,
                         backgroundRoutePolyline := Some bg\<rparr>) of
                (st3, task, draws) \<Rightarrow> (st3, task, zoomToBounds g (route_bounds route) # draws)))"
proof -
  let ?legs = "route_legs route"
  let ?colors = "generateColorSpectrum (length ?legs)"
  let ?d0 = "\<lparr>it_stops = [], it_legs = [],
              it_totalDistance = reduce_add (map rl_distance_value ?legs),
              it_totalTime = formatTotalDuration_number (reduce_add (map rl_duration_value ?legs)),
              it_totalFuelCost = Fin 0,
              it_totalAccommodationCost =
                (case req_accommodationCosts req of Some costs \<Rightarrow> reduce_add costs | None \<Rightarrow> Fin 0),
              it_travelMode = req_travelMode req\<rparr>"
  define built where "built =
     (case ?legs of
        first # _ \<Rightarrow>
          if has_Marker3DElement st
          then
            (let originColor = ?colors ! 0;
                 originMarker =
                   \<lparr>marker_position = rl_start_location first, marker_altitude = None,
                    marker_label = ustr ''1: '' @ name_at (req_stopNames req) 0,
                    marker_color = Some originColor\<rparr>;
                 originStop =
                   \<lparr>stop_name = name_at (req_stopNames req) 0,
                    stop_hotelName = opt_at (req_hotelNames req) 0,
                    stop_address = rl_start_address first,
                    stop_accommodationCost = None,
                    stop_location = rl_start_location first,
                    stop_color = originColor,
                    stop_date = opt_at (req_dates req) 0\<rparr>
             in process_legs req (mpg st) ?colors ?legs 0
                  (?d0\<lparr>it_stops := [originStop]\<rparr>, stopMarkers st @ [originMarker]))
          else (?d0, stopMarkers st)
      | [] \<Rightarrow> (?d0, stopMarkers st))"
  obtain d mks where b: "built = (d, mks)" by (cases built)
  let ?bg = "\<lparr>coordinates =
               map (\<lambda>p. \<lparr>lat = lat p, lng = lng p, altitude = 0\<rparr>) (concat (map rl_path ?legs)),
             strokeColor = ustr ''#B0B0B0'', strokeWidth = 10\<rparr>"
  have "directionsCallback g req response status st =
       (if \<not> has_Polyline3DElement st
        then (st\<lparr>stopMarkers := mks, itineraryData := Some d\<rparr>, None,
              [zoomToBounds g (route_bounds route)])
        else (case updateRouteAnimation
                     (st\<lparr>stopMarkers := mks, itineraryData := Some d,
                         backgroundRoutePolyline := Some ?bg\<rparr>) of
                (st3, task, draws) \<Rightarrow> (st3, task, zoomToBounds g (route_bounds route) # draws)))"
    using fresh ok b
    by (simp add: directionsCallback_def Let_def built_def [symmetric] split: prod.splits)
  then show ?thesis by blast
qed

lemma loop_draw_ids_zoom: "loop_draw_ids (zoomToBounds g b # ds) = loop_draw_ids ds"
  by (simp add: zoomToBounds_def Let_def)

lemma keeps_directionsCallback:
  assumes "directionsCallback g req response status st = (st1, t1, ds)"
  shows "keeps (currentAnimationId st) st1 ds"
proof (cases "req_animationId req \<noteq> currentAnimationId st")
  case True
  with assms show ?thesis by (auto simp: directionsCallback_def keeps_def)
next
  case fresh: False
  show ?thesis
  proof (cases "if status = ustr ''OK'' then response else None")
    case None
    with fresh assms have "st1 = addMessage ''error''
        (ustr ''Could not get directions. Reason: '' @ status) st" "ds = []"
      by (simp_all add: directionsCallback_def)
    then show ?thesis by (simp add: keeps_def addMessage_def)
  next
    case (Some routes)
    show ?thesis
    proof (cases routes)
      case Nil
      with Some fresh assms have "st1 = addMessage ''error''
          (ustr ''Could not get directions. Reason: '' @ status) st" "ds = []"
        by (simp_all add: directionsCallback_def)
      then show ?thesis by (simp add: keeps_def addMessage_def)
    next
      case (Cons route rest)
      with Some have ok: "(if status = ustr ''OK'' then response else None) = Some (route # rest)"
        by simp
      from fresh have fr: "req_animationId req = currentAnimationId st" by simp
      from directionsCallback_shape [OF fr ok, of g] obtain d mks bg where
        alt: "directionsCallback g req response status st =
          (if \<not> has_Polyline3DElement st
           then (st\<lparr>stopMarkers := mks, itineraryData := Some d\<rparr>, None,
                 [zoomToBounds g (route_bounds route)])
           else (case updateRouteAnimation
                        (st\<lparr>stopMarkers := mks, itineraryData := Some d,
                            backgroundRoutePolyline := Some bg\<rparr>) of
                   (st3, task, draws) \<Rightarrow> (st3, task, zoomToBounds g (route_bounds route) # draws)))"
        by blast
      let ?st2 = "st\<lparr>stopMarkers := mks, itineraryData := Some d,
                     backgroundRoutePolyline := Some bg\<rparr>"
      show ?thesis
      proof (cases "has_Polyline3DElement st")
        case False
        with alt assms have "st1 = st\<lparr>stopMarkers := mks, itineraryData := Some d\<rparr>"
          "ds = [zoomToBounds g (route_bounds route)]"
          by simp_all
        then show ?thesis by (simp add: keeps_def loop_draw_ids_zoom)
      next
        case True
        obtain st3 task draws where u: "updateRouteAnimation ?st2 = (st3, task, draws)"
          by (cases "updateRouteAnimation ?st2")
        from keeps_updateRouteAnimation [OF u] have k: "keeps (currentAnimationId st) st3 draws"
          by simp
        from alt assms True u have "st1 = st3" "ds = zoomToBounds g (route_bounds route) # draws"
          by simp_all
        with k show ?thesis by (simp add: keeps_def loop_draw_ids_zoom)
      qed
    qed
  qed
qed

lemma keeps_handleMapQuery:
  assumes "handleMapQuery params st = (st1, ds)"
  shows "keeps (currentAnimationId st) st1 ds"
proof -
  have v: "keeps (currentAnimationId s) s1 ds1" if "handleViewLocation q s = (s1, ds1)" for q s s1 ds1
    using that
    by (auto simp: handleViewLocation_def keeps_def addMessage_def clearMapElements_def
        split: if_splits)
  have d: "keeps (currentAnimationId s) s1 ds1"
    if "handleDirections ss cs dts tm hn s = (s1, ds1)" for ss cs dts tm hn s s1 ds1
    using that
    by (auto simp: handleDirections_def keeps_def addMessage_def clearMapElements_def Let_def
        split: if_splits)
  from assms show ?thesis
    by (auto simp: handleMapQuery_def split: option.splits list.splits if_splits
        dest: v dest!: d) (simp_all add: keeps_def)
qed


lemma keeps_step:
  assumes "step g e (st, tasks) = ((st1, tasks1), ds)"
  shows "keeps (currentAnimationId st) st1 ds"
proof (cases e)
  case (Timeout i)
  show ?thesis
  proof (cases "i < length tasks")
    case True
    obtain s2 t2 d2 where r: "resume (tasks ! i) st = (s2, t2, d2)"
      by (cases "resume (tasks ! i) st")
    with assms Timeout True have "st1 = s2" "ds = d2" by (simp_all add: step_def)
    with keeps_resume [OF r] show ?thesis by simp
  next
    case False
    with assms Timeout show ?thesis by (simp add: step_def keeps_def)
  qed
next
  case (SpeedSlider v)
  obtain s2 t2 d2 where r: "updateRouteAnimation (st\<lparr>animationSpeed := v\<rparr>) = (s2, t2, d2)"
    by (cases "updateRouteAnimation (st\<lparr>animationSpeed := v\<rparr>)")
  with assms SpeedSlider have "st1 = s2" "ds = d2"
    by (simp_all add: step_def handleAnimationSpeedChange_def)
  with keeps_updateRouteAnimation [OF r] show ?thesis by simp
next
  case (MapQuery params)
  obtain s2 d2 where r: "handleMapQuery params st = (s2, d2)"
    by (cases "handleMapQuery params st")
  with assms MapQuery have "st1 = s2" "ds = d2" by (simp_all add: step_def)
  with keeps_handleMapQuery [OF r] show ?thesis by simp
next
  case (DirectionsResponse req response status)
  obtain s2 t2 d2 where r: "directionsCallback g req response status st = (s2, t2, d2)"
    by (cases "directionsCallback g req response status st")
  with assms DirectionsResponse have "st1 = s2" "ds = d2" by (simp_all add: step_def)
  with keeps_directionsCallback [OF r] show ?thesis by simp
next
  case ClearMapElements
  with assms show ?thesis by (auto simp: step_def keeps_def clearMapElements_def)
next
  case StopAnimation
  with assms show ?thesis
    by (auto simp: step_def keeps_def stopAnimation_def currentAnimationId_drawStaticRoute)
next
  case UpdateRouteAnimation
  obtain s2 t2 d2 where r: "updateRouteAnimation st = (s2, t2, d2)"
    by (cases "updateRouteAnimation st")
  with assms UpdateRouteAnimation have "st1 = s2" "ds = d2" by (simp_all add: step_def)
  with keeps_updateRouteAnimation [OF r] show ?thesis by simp
qed

lemma keeps_run:
  "run g es (st, tasks) = ((st1, tasks1), ds) \<Longrightarrow> keeps (currentAnimationId st) st1 ds"
proof (induction es arbitrary: st tasks st1 tasks1 ds)
  case Nil
  then show ?case by (simp add: keeps_def)
next
  case (Cons e es)
  obtain s2 ts2 d2 where a: "step g e (st, tasks) = ((s2, ts2), d2)"
    by (cases "step g e (st, tasks)") auto
  obtain s3 ts3 d3 where b: "run g es (s2, ts2) = ((s3, ts3), d3)"
    by (cases "run g es (s2, ts2)") auto
  from Cons.prems a b have eq: "st1 = s3" "ds = d2 @ d3" by simp_all
  from keeps_step [OF a] have k1: "keeps (currentAnimationId st) s2 d2" .
  from Cons.IH [OF b] have k2: "keeps (currentAnimationId s2) s3 d3" .
  from k1 have le: "currentAnimationId st \<le> currentAnimationId s2" by (simp add: keeps_def)
  from keeps_mono [OF le k2] have k3: "keeps (currentAnimationId st) s3 d3" .
  from k1 k3 show ?case
    by (simp add: keeps_def eq loop_draw_ids_append)
qed

lemma stale_returns:
  assumes "task_animationId t \<noteq> currentAnimationId st \<or> animationSpeed st = 100"
  shows "resume t st = (st, None, [])"
    and "runAnimationLoop (task_animationId t) legs d st = (st, None, [])"
proof -
  show "runAnimationLoop (task_animationId t) legs d st = (st, None, [])"
    using assms by (simp add: runAnimationLoop_def)
  show "resume t st = (st, None, [])"
  proof (cases "task_remaining t")
    case Nil
    with assms show ?thesis by (auto simp: resume_def)
  next
    case (Cons leg rest)
    with assms show ?thesis by (simp add: resume_def draw_next_def)
  qed
qed

text \<open>
  Claim C10: once \<open>currentAnimationId\<close> has been incremented (by \<open>_clearMapElements\<close>,
  \<open>_stopAnimation\<close> or \<open>_updateRouteAnimation\<close>), a loop started under an earlier id never draws
  another polyline: each call of \<open>_runAnimationLoop\<close> and each pass of its per-leg loop first
  compares its id with \<open>currentAnimationId\<close> and returns without drawing or rescheduling when
  they differ or the speed is 100.
\<close>

theorem stale_loop_never_draws:
  "(task_animationId t \<noteq> currentAnimationId st \<or> animationSpeed st = 100 \<longrightarrow>
      resume t st = (st, None, []) \<and>
      runAnimationLoop (task_animationId t) (task_legsData t) (task_delayPerLeg t) st
        = (st, None, [])) \<and>
   (task_animationId t < currentAnimationId st \<longrightarrow>
      task_animationId t \<notin> set (loop_draw_ids (snd (run g events (st, tasks))))) \<and>
   list_all (\<lambda>a. currentAnimationId st \<le> a) (loop_draw_ids (snd (run g events (st, tasks)))) \<and>
   currentAnimationId st \<le> currentAnimationId (fst (fst (run g events (st, tasks)))) \<and>
   currentAnimationId (clearMapElements st) = currentAnimationId st + 1 \<and>
   currentAnimationId (stopAnimation st) = currentAnimationId st + 1 \<and>
   (itineraryData st \<noteq> None \<longrightarrow>
      currentAnimationId (fst (updateRouteAnimation st)) = currentAnimationId st + 1)"
proof -
  obtain s1 ts1 ds where r: "run g events (st, tasks) = ((s1, ts1), ds)"
    by (cases "run g events (st, tasks)") auto
  from keeps_run [OF r] have k: "currentAnimationId st \<le> currentAnimationId s1"
    "list_all (\<lambda>a. currentAnimationId st \<le> a) (loop_draw_ids ds)"
    by (simp_all add: keeps_def)
  have a: "task_animationId t \<notin> set (loop_draw_ids ds)" if "task_animationId t < currentAnimationId st"
  proof
    assume "task_animationId t \<in> set (loop_draw_ids ds)"
    with k(2) have "currentAnimationId st \<le> task_animationId t"
      by (simp add: list_all_iff)
    with that show False by simp
  qed
  have c: "currentAnimationId (clearMapElements st) = currentAnimationId st + 1"
    by (simp add: clearMapElements_def)
  have s: "currentAnimationId (stopAnimation st) = currentAnimationId st + 1"
    by (simp add: stopAnimation_def currentAnimationId_drawStaticRoute)
  have u: "currentAnimationId (fst (updateRouteAnimation st)) = currentAnimationId st + 1"
    if "itineraryData st \<noteq> None"
  proof -
    have d: "currentAnimationId (fst (draw_next t0 leg rest s0)) = currentAnimationId s0"
      for t0 leg rest s0
      by (simp add: draw_next_def drawLegPolyline_def)
    have l: "currentAnimationId (fst (runAnimationLoop a0 legs d0 s0)) = currentAnimationId s0"
      for a0 legs d0 s0
      by (simp add: runAnimationLoop_def Let_def d split: list.splits)
    have sa: "currentAnimationId (fst (startAnimation s0)) = currentAnimationId s0" for s0
      by (simp add: startAnimation_def Let_def l currentAnimationId_drawStaticRoute
          split: option.splits)
    from that show ?thesis
      by (auto simp: updateRouteAnimation_def Let_def sa currentAnimationId_drawStaticRoute)
  qed
  show ?thesis
    using stale_returns [of t st] a k c s u by (simp add: r)
qed


text \<open>A loop started under id 1, waiting while the id has moved on to 2.\<close>

definition example_stale_task :: LoopTask where
  "example_stale_task =
     \<lparr>task_animationId = 1, task_legsData = it_legs example_itinerary,
      task_delayPerLeg = 1000, task_remaining = tl (it_legs example_itinerary)\<rparr>"

definition example_moved_on :: MapApp where
  "example_moved_on = example_route_shown\<lparr>currentAnimationId := 2\<rparr>"

theorem stale_loop_never_draws_witness:
  "task_animationId example_stale_task \<noteq> currentAnimationId example_moved_on \<and>
   task_animationId example_stale_task < currentAnimationId example_moved_on \<and>
   itineraryData example_moved_on \<noteq> None \<and>
   resume example_stale_task example_moved_on = (example_moved_on, None, []) \<and>
   1 \<notin> set (loop_draw_ids (snd (run True [Timeout 0, SpeedSlider 30, Timeout 0]
                                    (example_moved_on, [example_stale_task])))) \<and>
   loop_draw_ids (snd (run True [Timeout 0, SpeedSlider 30, Timeout 0]
                         (example_moved_on, [example_stale_task]))) = [3, 3] \<and>
   currentAnimationId (fst (updateRouteAnimation example_moved_on)) = 3"
proof -
  have f: "task_animationId example_stale_task = 1" "currentAnimationId example_moved_on = 2"
    "itineraryData example_moved_on \<noteq> None"
    by (simp_all add: example_stale_task_def example_moved_on_def example_route_shown_def
        initial_state_def)
  have ev: "loop_draw_ids (snd (run True [Timeout 0, SpeedSlider 30, Timeout 0]
                         (example_moved_on, [example_stale_task]))) = [3, 3]"
    by (simp add: step_def resume_def draw_next_def runAnimationLoop_def waiting_def
        handleAnimationSpeedChange_def updateRouteAnimation_def startAnimation_def
        drawLegPolyline_def Let_def example_stale_task_def example_moved_on_def
        example_route_shown_def initial_state_def example_itinerary_def)
  from stale_loop_never_draws [of example_stale_task example_moved_on True
      "[Timeout 0, SpeedSlider 30, Timeout 0]" "[example_stale_task]"] f
  have "resume example_stale_task example_moved_on = (example_moved_on, None, [])"
    and "1 \<notin> set (loop_draw_ids (snd (run True [Timeout 0, SpeedSlider 30, Timeout 0]
                                    (example_moved_on, [example_stale_task]))))"
    and "currentAnimationId (fst (updateRouteAnimation example_moved_on)) = 3"
    by simp_all
  with f ev show ?thesis by simp
qed


section \<open>Itinerary tables\<close>

text \<open>
  \<open>_parseItineraryTable\<close>. Three functions of the platform are parameters: \<open>year\<close> is
  \<open>new Date().getFullYear()\<close>; \<open>toISODate s\<close> is the date part of
  \<open>new Date(s).toISOString()\<close>, or \<open>None\<close> when the date is invalid; \<open>parseFloat\<close> is the global
  function. The em dash is the code unit 8212, the en dash 8211.
\<close>

record ParsedItinerary =
  parsed_stops :: "jsstring list"
  parsed_dates :: "jsstring list"
  parsed_accommodationCosts :: "number list"

text \<open>\<open>replace(/\*\*|\<dots> START|\<dots> RETURN/g, '')\<close>, the dots standing for an en dash.\<close>

function remove_marks :: "jsstring \<Rightarrow> jsstring" where
  "remove_marks [] = []"
| "remove_marks (c # cs) =
     (if take 2 (c # cs) = ustr ''**'' then remove_marks (drop 2 (c # cs))
      else if take 7 (c # cs) = 8211 # ustr '' START'' then remove_marks (drop 7 (c # cs))
      else if take 8 (c # cs) = 8211 # ustr '' RETURN'' then remove_marks (drop 8 (c # cs))
      else c # remove_marks cs)"
  by pat_completeness auto
termination
  by (relation "measure length") auto

definition table_lines :: "jsstring \<Rightarrow> jsstring list" where
  "table_lines markdown = filter (\<lambda>l. l \<noteq> []) (map trim (js_split [10] markdown))"

definition row_columns :: "jsstring \<Rightarrow> jsstring list" where
  "row_columns row = map trim (js_split (ustr ''|'') row)"

definition row_stop :: "jsstring list \<Rightarrow> jsstring" where
  "row_stop columns =
     (let stopNameForLabel = trim (remove_marks (columns ! 3));
          address = columns ! 4;
          query = (if address \<noteq> [] \<and> address \<noteq> [8212]
                   then (if js_includes (ustr ''Home'') stopNameForLabel
                         then address
                         else stopNameForLabel @ ustr '', '' @ address)
                   else stopNameForLabel)
      in stopNameForLabel @ ustr '';;;'' @ query)"

definition row_date :: "nat \<Rightarrow> (jsstring \<Rightarrow> jsstring option) \<Rightarrow> jsstring list \<Rightarrow> jsstring" where
  "row_date year toISODate columns =
     (let dateStr = columns ! 2
      in if dateStr \<noteq> [] \<and> dateStr \<noteq> [8212]
         then
           (let firstDatePart = trim (takeWhile (\<lambda>c. c \<noteq> 8211 \<and> c \<noteq> 45) dateStr)
            in case toISODate (firstDatePart @ ustr '' '' @ show_nat year) of
                 Some isoDate \<Rightarrow> isoDate
               | None \<Rightarrow> [])
         else [])"

definition row_rate :: "(jsstring \<Rightarrow> number) \<Rightarrow> jsstring list \<Rightarrow> number" where
  "row_rate parseFloat columns =
     (let rateStr = columns ! 7
      in if rateStr \<noteq> [] \<and> rateStr \<noteq> [8212]
         then
           (let rate = parseFloat (filter (\<lambda>c. c \<noteq> 36 \<and> c \<noteq> 92) rateStr)
            in if rate = NaN then Fin 0 else rate)
         else Fin 0)"

text \<open>The \<open>for\<close> loop over the data rows, with its two \<open>continue\<close> and its three \<open>push\<close>.\<close>

fun parse_rows ::
  "nat \<Rightarrow> (jsstring \<Rightarrow> jsstring option) \<Rightarrow> (jsstring \<Rightarrow> number) \<Rightarrow> jsstring list \<Rightarrow>
   jsstring list \<times> jsstring list \<times> number list \<Rightarrow> jsstring list \<times> jsstring list \<times> number list" where
  "parse_rows year toISODate parseFloat [] acc = acc"
| "parse_rows year toISODate parseFloat (row # dataRows) (stops, dates, rates) =
     (if take 1 row \<noteq> ustr ''|'' then parse_rows year toISODate parseFloat dataRows (stops, dates, rates)
      else
        (let columns = row_columns row
         in if length columns < 8
            then parse_rows year toISODate parseFloat dataRows (stops, dates, rates)
            else parse_rows year toISODate parseFloat dataRows
                   (stops @ [row_stop columns],
                    dates @ [row_date year toISODate columns],
                    rates @ [row_rate parseFloat columns])))"

definition parseItineraryTable ::
  "nat \<Rightarrow> (jsstring \<Rightarrow> jsstring option) \<Rightarrow> (jsstring \<Rightarrow> number) \<Rightarrow> jsstring \<Rightarrow>
   ParsedItinerary option" where
  "parseItineraryTable year toISODate parseFloat markdown =
     (case table_lines markdown of
        header # separator # row # rows \<Rightarrow>
          if \<not> js_includes (ustr ''|'') header \<or> \<not> js_includes (ustr ''--'') separator then None
          else
            (case parse_rows year toISODate parseFloat (row # rows) ([], [], []) of
               (stops, dates, rates) \<Rightarrow>
                 if length stops < 2 then None
                 else Some \<lparr>parsed_stops = stops, parsed_dates = dates,
                            parsed_accommodationCosts = drop 1 rates\<rparr>)
      | _ \<Rightarrow> None)"

text \<open>The data rows that yield a stop, as the specification describes them.\<close>

definition stop_rows :: "jsstring \<Rightarrow> jsstring list list" where
  "stop_rows markdown =
     filter (\<lambda>columns. 8 \<le> length columns)
       (map row_columns (filter (\<lambda>row. take 1 row = ustr ''|'') (drop 2 (table_lines markdown))))"

lemma parse_rows_eq:
  "parse_rows y f p rows (stops, dates, rates) =
     (stops @ map row_stop
        (filter (\<lambda>columns. 8 \<le> length columns)
           (map row_columns (filter (\<lambda>row. take 1 row = ustr ''|'') rows))),
      dates @ map (row_date y f)
        (filter (\<lambda>columns. 8 \<le> length columns)
           (map row_columns (filter (\<lambda>row. take 1 row = ustr ''|'') rows))),
      rates @ map (row_rate p)
        (filter (\<lambda>columns. 8 \<le> length columns)
           (map row_columns (filter (\<lambda>row. take 1 row = ustr ''|'') rows))))"
  by (induction rows arbitrary: stops dates rates) (simp_all add: Let_def not_less)


lemma parseItineraryTable_unfold:
  "parseItineraryTable y f p md =
     (if length (table_lines md) < 3 \<or> \<not> js_includes (ustr ''|'') (table_lines md ! 0) \<or>
         \<not> js_includes (ustr ''--'') (table_lines md ! 1) \<or> length (stop_rows md) < 2
      then None
      else Some \<lparr>parsed_stops = map row_stop (stop_rows md),
                 parsed_dates = map (row_date y f) (stop_rows md),
                 parsed_accommodationCosts = drop 1 (map (row_rate p) (stop_rows md))\<rparr>)"
proof (cases "table_lines md")
  case Nil
  then show ?thesis by (simp add: parseItineraryTable_def)
next
  case l1: (Cons header t1)
  show ?thesis
  proof (cases t1)
    case Nil
    with l1 show ?thesis by (simp add: parseItineraryTable_def)
  next
    case l2: (Cons separator t2)
    show ?thesis
    proof (cases t2)
      case Nil
      with l1 l2 show ?thesis by (simp add: parseItineraryTable_def)
    next
      case l3: (Cons row rows)
      have tl: "table_lines md = header # separator # row # rows"
        by (simp add: l1 l2 l3)
      have sr: "stop_rows md =
          filter (\<lambda>columns. 8 \<le> length columns)
            (map row_columns (filter (\<lambda>r. take 1 r = ustr ''|'') (row # rows)))"
        by (simp add: stop_rows_def tl)
      show ?thesis
        unfolding parseItineraryTable_def tl list.case parse_rows_eq sr [symmetric]
        by (simp add: tl)
    qed
  qed
qed

text \<open>
  Claim C3: \<open>_parseItineraryTable\<close> returns null exactly when its input, after trimming the
  lines and dropping the blank ones, has fewer than 3 lines, or the first line has no \<open>|\<close>, or
  the second no \<open>--\<close>, or fewer than 2 stops are extracted; otherwise it returns one
  \<open>name;;;query\<close> stop per data row that starts with \<open>|\<close> and splits into at least 8 columns, a
  dates array of the same length (with the empty string where the date cell is missing, a
  dash or unparsable), and an \<open>accommodationCosts\<close> array one shorter, the parsed rates
  without the first.
\<close>

theorem parseItineraryTable_spec:
  "(parseItineraryTable y f p md = None \<longleftrightarrow>
      length (table_lines md) < 3 \<or> \<not> js_includes (ustr ''|'') (table_lines md ! 0) \<or>
      \<not> js_includes (ustr ''--'') (table_lines md ! 1) \<or> length (stop_rows md) < 2) \<and>
   (parseItineraryTable y f p md \<noteq> None \<longrightarrow>
      parseItineraryTable y f p md =
        Some \<lparr>parsed_stops = map row_stop (stop_rows md),
              parsed_dates = map (row_date y f) (stop_rows md),
              parsed_accommodationCosts = drop 1 (map (row_rate p) (stop_rows md))\<rparr>) \<and>
   (\<forall>r. parseItineraryTable y f p md = Some r \<longrightarrow>
      length (parsed_stops r) = length (stop_rows md) \<and>
      2 \<le> length (parsed_stops r) \<and>
      length (parsed_dates r) = length (parsed_stops r) \<and>
      length (parsed_accommodationCosts r) = length (parsed_stops r) - 1) \<and>
   (\<exists>name query. row_stop columns = name @ ustr '';;;'' @ query) \<and>
   (columns ! 2 = [] \<or> columns ! 2 = [8212] \<or>
    f (trim (takeWhile (\<lambda>c. c \<noteq> 8211 \<and> c \<noteq> 45) (columns ! 2)) @ ustr '' '' @ show_nat y) = None
    \<longrightarrow> row_date y f columns = [])"
proof (intro conjI)
  show "parseItineraryTable y f p md = None \<longleftrightarrow>
      length (table_lines md) < 3 \<or> \<not> js_includes (ustr ''|'') (table_lines md ! 0) \<or>
      \<not> js_includes (ustr ''--'') (table_lines md ! 1) \<or> length (stop_rows md) < 2"
    by (simp add: parseItineraryTable_unfold)
  show "parseItineraryTable y f p md \<noteq> None \<longrightarrow>
      parseItineraryTable y f p md =
        Some \<lparr>parsed_stops = map row_stop (stop_rows md),
              parsed_dates = map (row_date y f) (stop_rows md),
              parsed_accommodationCosts = drop 1 (map (row_rate p) (stop_rows md))\<rparr>"
    by (simp add: parseItineraryTable_unfold)
  show "\<forall>r. parseItineraryTable y f p md = Some r \<longrightarrow>
      length (parsed_stops r) = length (stop_rows md) \<and>
      2 \<le> length (parsed_stops r) \<and>
      length (parsed_dates r) = length (parsed_stops r) \<and>
      length (parsed_accommodationCosts r) = length (parsed_stops r) - 1"
    by (auto simp: parseItineraryTable_unfold split: if_splits)
  show "\<exists>name query. row_stop columns = name @ ustr '';;;'' @ query"
    unfolding row_stop_def Let_def by blast
  show "columns ! 2 = [] \<or> columns ! 2 = [8212] \<or>
    f (trim (takeWhile (\<lambda>c. c \<noteq> 8211 \<and> c \<noteq> 45) (columns ! 2)) @ ustr '' '' @ show_nat y) = None
    \<longrightarrow> row_date y f columns = []"
    by (auto simp: row_date_def Let_def)
qed


text \<open>
  A table with a header, a separator, two data rows (the first with a dash as its rate, the
  second with dashes as its date and address), a line of text and a short row.
\<close>

definition example_table :: jsstring where
  "example_table =
     ustr ''| # | Dates | Stop | Address | Hotel | Nights | Rate |'' @ [10] @
     ustr ''|---|---|---|---|---|---|---|'' @ [10] @ [10] @
     ustr ''  | 1 | Aug 12 | **Home** | 1 Main St | a | 0 | '' @ [8212] @ ustr '' |'' @ [10] @
     ustr ''some text'' @ [10] @
     ustr ''| too | short |'' @ [10] @
     ustr ''| 2 | '' @ [8212] @ ustr '' | Boise | '' @ [8212] @ ustr '' | Grove | 1 | $165 |''"

definition example_toISODate :: "jsstring \<Rightarrow> jsstring option" where
  "example_toISODate s = (if s = ustr ''Aug 12 2025'' then Some (ustr ''2025-08-12'') else None)"

definition example_parseFloat :: "jsstring \<Rightarrow> number" where
  "example_parseFloat s = (if s = ustr ''165'' then Fin 165 else NaN)"

lemma example_lines:
  "table_lines example_table =
     [ustr ''| # | Dates | Stop | Address | Hotel | Nights | Rate |'',
      ustr ''|---|---|---|---|---|---|---|'',
      ustr ''| 1 | Aug 12 | **Home** | 1 Main St | a | 0 | '' @ [8212] @ ustr '' |'',
      ustr ''some text'',
      ustr ''| too | short |'',
      ustr ''| 2 | '' @ [8212] @ ustr '' | Boise | '' @ [8212] @ ustr '' | Grove | 1 | $165 |'']"
  by (simp add: table_lines_def example_table_def ustr_def trim_def is_js_space_def)


lemma example_rows:
  "stop_rows example_table =
     [[[], ustr ''1'', ustr ''Aug 12'', ustr ''**Home**'', ustr ''1 Main St'', ustr ''a'', ustr ''0'',
       [8212], []],
      [[], ustr ''2'', [8212], ustr ''Boise'', [8212], ustr ''Grove'', ustr ''1'', ustr ''$165'', []]]"
  unfolding stop_rows_def example_lines
  by (simp add: row_columns_def ustr_def trim_def is_js_space_def)

lemma example_row_values:
  "map row_stop (stop_rows example_table) = [ustr ''Home;;;1 Main St'', ustr ''Boise;;;Boise'']"
  "map (row_date 2025 example_toISODate) (stop_rows example_table) = [ustr ''2025-08-12'', []]"
  "map (row_rate example_parseFloat) (stop_rows example_table) = [Fin 0, Fin 165]"
  unfolding example_rows
  by (simp_all add: row_stop_def row_date_def row_rate_def Let_def ustr_def trim_def
      is_js_space_def example_toISODate_def example_parseFloat_def show_nat.simps)

theorem parseItineraryTable_spec_witness:
  "parseItineraryTable 2025 example_toISODate example_parseFloat example_table =
     Some \<lparr>parsed_stops = [ustr ''Home;;;1 Main St'', ustr ''Boise;;;Boise''],
           parsed_dates = [ustr ''2025-08-12'', []],
           parsed_accommodationCosts = [Fin 165]\<rparr> \<and>
   length (table_lines (ustr ''plot a trip to Boise'')) < 3 \<and>
   parseItineraryTable 2025 example_toISODate example_parseFloat (ustr ''plot a trip to Boise'')
     = None"
proof -
  have l: "length (table_lines example_table) = 6"
    "js_includes (ustr ''|'') (table_lines example_table ! 0)"
    "js_includes (ustr ''--'') (table_lines example_table ! 1)"
    unfolding example_lines by (simp_all add: ustr_def)
  have n: "length (stop_rows example_table) = 2"
    unfolding example_rows by simp
  have a: "parseItineraryTable 2025 example_toISODate example_parseFloat example_table =
     Some \<lparr>parsed_stops = [ustr ''Home;;;1 Main St'', ustr ''Boise;;;Boise''],
           parsed_dates = [ustr ''2025-08-12'', []],
           parsed_accommodationCosts = [Fin 165]\<rparr>"
    using parseItineraryTable_spec [of 2025 example_toISODate example_parseFloat example_table "[]"]
      l n
    by (simp add: example_row_values)
  have s: "length (table_lines (ustr ''plot a trip to Boise'')) < 3"
    by (simp add: table_lines_def ustr_def trim_def is_js_space_def)
  have b: "parseItineraryTable 2025 example_toISODate example_parseFloat
      (ustr ''plot a trip to Boise'') = None"
    using parseItineraryTable_spec [of 2025 example_toISODate example_parseFloat
        "ustr ''plot a trip to Boise''" "[]"] s
    by blast
  from a s b show ?thesis by simp
qed

end
